theory Spec2Isabelle
  imports Main "HOL-Library.Char_ord" "HOL-Library.List_Lexorder" "HOL-Library.Multiset"
begin

section \<open>lib/sort.js\<close>

text \<open>
  A JavaScript string is the list of its UTF-16 code units, numbers below 65536 (nothing
  below depends on the bound), and \<open><\<close> on two strings is the lexicographic order on the
  code units, a proper prefix being smaller. \<open>js\<close> writes the string of an ASCII literal.
\<close>

type_synonym jsstring = "nat list"

definition js :: "string \<Rightarrow> jsstring" where
  "js s = map of_char s"

text \<open>
  \<open>String.prototype.toLowerCase\<close> is the language's and not the repository's: it is the
  parameter \<open>toLowerCase\<close> of everything that calls it, so what is proved of the callers
  holds whatever \<open>toLowerCase\<close> does to a string. \<open>compareByTitle\<close> reads the \<open>title\<close>
  property of both items; the property is a parameter too, since todo lists and todos are
  different records.
\<close>

definition compareByTitle ::
  "(jsstring \<Rightarrow> jsstring) \<Rightarrow> ('a \<Rightarrow> jsstring) \<Rightarrow> 'a \<Rightarrow> 'a \<Rightarrow> int" where
  "compareByTitle toLowerCase title itemA itemB =
     (let titleA = toLowerCase (title itemA);
          titleB = toLowerCase (title itemB)
      in if titleA < titleB then - 1
         else if titleA > titleB then 1
         else 0)"

text \<open>
  \<open>Array.prototype.sort(compare)\<close>: a stable sort (ECMAScript 2019), written as an
  insertion sort that puts an element before the first one it does not exceed.
\<close>

fun sort_insert :: "('a \<Rightarrow> 'a \<Rightarrow> int) \<Rightarrow> 'a \<Rightarrow> 'a list \<Rightarrow> 'a list" where
  "sort_insert compare x [] = [x]"
| "sort_insert compare x (y # ys) =
     (if compare x y \<le> 0 then x # y # ys else y # sort_insert compare x ys)"

definition Array_sort :: "('a \<Rightarrow> 'a \<Rightarrow> int) \<Rightarrow> 'a list \<Rightarrow> 'a list" where
  "Array_sort compare xs = foldr (sort_insert compare) xs []"

text \<open>
  Arrays are objects: \<open>sort\<close> works in place on the array the caller passed. The
  arrays live in a store, a function from references to contents, and
  \<open>sortTodoItems\<close> takes the references of \<open>undone\<close> and \<open>done\<close>. It returns the new
  array \<open>[].concat(undone, done)\<close> and the store it leaves behind.
\<close>

type_synonym 'a arrays = "nat \<Rightarrow> 'a list"

definition sortTodoItems ::
  "(jsstring \<Rightarrow> jsstring) \<Rightarrow> ('a \<Rightarrow> jsstring) \<Rightarrow> nat \<Rightarrow> nat \<Rightarrow> 'a arrays
     \<Rightarrow> 'a list \<times> 'a arrays" where
  "sortTodoItems toLowerCase title undone done h =
     (let h1 = h(undone := Array_sort (compareByTitle toLowerCase title) (h undone));
          h2 = h1(done := Array_sort (compareByTitle toLowerCase title) (h1 done))
      in (h2 undone @ h2 done, h2))"

section \<open>lib/session-persistence.js\<close>

record todo =
  todo_id :: int
  todo_title :: jsstring
  todo_done :: bool

record todoList =
  list_id :: int
  list_title :: jsstring
  list_todos :: "todo list"

text \<open>The private field \<open>_todoLists\<close>, the array shared with the session.\<close>

type_synonym session_store = "todoList list"

text \<open>
  A thrown JavaScript error: its name and its message, the texts of the runtime and of
  the database, written as Isabelle strings.
\<close>

datatype error = JsError string string

definition String_of_error :: "error \<Rightarrow> string" where
  "String_of_error e = (case e of JsError name message \<Rightarrow> name @ '': '' @ message)"

text \<open>
  Modelled from the spec: \<open>lib/deep-copy.js\<close> is not among the sources; a deep copy of
  a value is the value, and what is done to the copy does not reach the original.
\<close>

definition deepCopy :: "'a \<Rightarrow> 'a" where
  "deepCopy x = x"

text \<open>
  \<open>find\<close> returns a reference to an element of the array. A reference is the position
  of the element, \<open>None\<close> is \<open>undefined\<close>. \<open>findIndex\<close> returns \<open>-1\<close> when no element
  matches.
\<close>

fun find_pos :: "('a \<Rightarrow> bool) \<Rightarrow> 'a list \<Rightarrow> nat option" where
  "find_pos P [] = None"
| "find_pos P (x # xs) = (if P x then Some 0 else map_option Suc (find_pos P xs))"

definition findIndex :: "('a \<Rightarrow> bool) \<Rightarrow> 'a list \<Rightarrow> int" where
  "findIndex P xs = (case find_pos P xs of None \<Rightarrow> - 1 | Some i \<Rightarrow> int i)"

text \<open>
  \<open>xs.splice(start, 1)\<close>: a negative \<open>start\<close> counts from the end of the array, and
  one element is removed at the resulting position if there is one.
\<close>

definition splice1 :: "int \<Rightarrow> 'a list \<Rightarrow> 'a list" where
  "splice1 start xs =
     (let len = int (length xs);
          k = (if start < 0 then max (len + start) 0 else min start len)
      in take (nat k) xs @ drop (nat k + 1) xs)"

definition findTodoList :: "session_store \<Rightarrow> int \<Rightarrow> nat option" where
  "findTodoList S todoListId = find_pos (\<lambda>todoList. list_id todoList = todoListId) S"

definition findTodo :: "session_store \<Rightarrow> int \<Rightarrow> int \<Rightarrow> (nat \<times> nat) option" where
  "findTodo S todoListId todoId =
     (case findTodoList S todoListId of
        None \<Rightarrow> None
      | Some i \<Rightarrow>
          (case find_pos (\<lambda>todo. todo_id todo = todoId) (list_todos (S ! i)) of
             None \<Rightarrow> None
           | Some j \<Rightarrow> Some (i, j)))"

definition isDoneTodoList_session :: "todoList \<Rightarrow> bool" where
  "isDoneTodoList_session todoList \<longleftrightarrow>
     length (list_todos todoList) > 0 \<and> list_all todo_done (list_todos todoList)"

text \<open>
  The two filtered arrays are new arrays of the method's own; they are the references
  0 and 1 of a store of its own.
\<close>

definition sortedTodoLists_session ::
  "(jsstring \<Rightarrow> jsstring) \<Rightarrow> session_store \<Rightarrow> todoList list \<times> session_store" where
  "sortedTodoLists_session toLowerCase S =
     (let todoLists = deepCopy S;
          undone = filter (\<lambda>todoList. \<not> isDoneTodoList_session todoList) todoLists;
          done = filter (\<lambda>todoList. isDoneTodoList_session todoList) todoLists
      in (fst (sortTodoItems toLowerCase list_title 0 1 ((\<lambda>_. [])(0 := undone, 1 := done))), S))"

text \<open>
  \<open>toggleTodo\<close> has no \<open>return\<close>: it returns \<open>undefined\<close>, the unit value here. Reading
  \<open>done\<close> of \<open>undefined\<close> throws a \<open>TypeError\<close>.
\<close>

definition undefined_property :: "string \<Rightarrow> error" where
  "undefined_property name =
     JsError ''TypeError'' (''Cannot read properties of undefined (reading '' @ name @ '')'')"

definition toggleTodo_session ::
  "int \<Rightarrow> int \<Rightarrow> session_store \<Rightarrow> (error + unit) \<times> session_store" where
  "toggleTodo_session todoListId todoId S =
     (case findTodo S todoListId todoId of
        None \<Rightarrow> (Inl (undefined_property ''done''), S)
      | Some (i, j) \<Rightarrow>
          (let todoList = S ! i;
               todo = list_todos todoList ! j
           in (Inr (),
               S[i := todoList\<lparr>list_todos :=
                        (list_todos todoList)[j := todo\<lparr>todo_done := \<not> todo_done todo\<rparr>]\<rparr>])))"

text \<open>
  \<open>deleteTodo\<close> returns \<open>undefined\<close> on every path: the result is a \<open>bool option\<close> and
  \<open>None\<close> is \<open>undefined\<close>. \<open>!todoIndex\<close> is true exactly when \<open>todoIndex\<close> is \<open>0\<close>.
\<close>

definition deleteTodo_session ::
  "int \<Rightarrow> int \<Rightarrow> session_store \<Rightarrow> bool option \<times> session_store" where
  "deleteTodo_session todoListId todoId S =
     (case findTodoList S todoListId of
        None \<Rightarrow> (None, S)
      | Some i \<Rightarrow>
          (let todoList = S ! i;
               todoIndex = findIndex (\<lambda>todo. todo_id todo = todoId) (list_todos todoList)
           in if todoIndex = 0 then (None, S)
              else (None, S[i := todoList\<lparr>list_todos := splice1 todoIndex (list_todos todoList)\<rparr>])))"

section \<open>lib/db-query.js\<close>

text \<open>
  The two relational stores hand every SQL statement to \<open>dbQuery(statement, ...parameters)\<close>
  of \<open>lib/db-query.js\<close>, which is not among the sources. A statement is written here
  as a term: the table, the \<open>WHERE\<close> clause as a conjunction of \<open>column = $n\<close>, and what
  the statement selects, sets or inserts.
\<close>

datatype val = Num int | Str jsstring | Bool bool | Null

datatype tbl = Todolists | Todos | Users

datatype col = Id | Title | Done | Todolist_id | Username | Password

type_synonym cond = "(col \<times> nat) list"

datatype selection = Star | Cols "col list"

datatype ordering = ByCol col | ByLower col

text \<open>\<open>SET title = $n\<close>, \<open>SET done = NOT done\<close> and \<open>SET done = TRUE\<close>.\<close>

datatype assignment = SetTitle nat | ToggleDone | SetDoneTrue

text \<open>
  \<open>SELECT sel FROM t WHERE cond ORDER BY ords\<close>, \<open>DELETE FROM t WHERE cond\<close>,
  \<open>UPDATE t SET a WHERE cond\<close> and \<open>INSERT INTO t (cols) VALUES ($1, ..., $k)\<close>.
\<close>

datatype stmt =
    SELECT selection tbl cond "ordering list"
  | DELETE tbl cond
  | UPDATE tbl assignment cond
  | INSERT tbl "col list"

record todolist_row =
  tl_id :: int
  tl_title :: jsstring
  tl_username :: "jsstring option"

record todo_row =
  td_id :: int
  td_title :: jsstring
  td_done :: bool
  td_todolist_id :: int
  td_username :: "jsstring option"

record user_row =
  us_username :: jsstring
  us_password :: jsstring

datatype row =
    TodoListRow todolist_row
  | TodoRow todo_row
  | UserRow user_row
  | ProjRow "(col \<times> val) list"

record qresult =
  rows :: "row list"
  rowCount :: nat

text \<open>
  \<open>dbQuery\<close> is a parameter of every method below: it takes the statement, the
  parameters and the state of whatever answers the query, and returns the result or
  the error the promise is rejected with, and the new state.
\<close>

type_synonym 's dbQuery = "stmt \<Rightarrow> val list \<Rightarrow> 's \<Rightarrow> (error + qresult) \<times> 's"

text \<open>The rows of a query on \<open>todolists\<close> and on \<open>todos\<close>, read as such.\<close>

fun todolist_rows :: "row list \<Rightarrow> todolist_row list" where
  "todolist_rows [] = []"
| "todolist_rows (TodoListRow r # rs) = r # todolist_rows rs"
| "todolist_rows (_ # rs) = todolist_rows rs"

fun todo_rows :: "row list \<Rightarrow> todo_row list" where
  "todo_rows [] = []"
| "todo_rows (TodoRow r # rs) = r # todo_rows rs"
| "todo_rows (_ # rs) = todo_rows rs"

text \<open>A todo list row after \<open>todoList.todos = ...\<close> has given it its todos.\<close>

record pg_todoList = todolist_row +
  tl_todos :: "todo_row list"

definition set_todos :: "todolist_row \<Rightarrow> todo_row list \<Rightarrow> pg_todoList" where
  "set_todos todoList ts =
     \<lparr>tl_id = tl_id todoList, tl_title = tl_title todoList,
      tl_username = tl_username todoList, tl_todos = ts\<rparr>"

text \<open>
  \<open>await Promise.all([p1, p2])\<close>: both queries have been issued; the first rejection
  is thrown.
\<close>

definition Promise_all :: "error + 'a \<Rightarrow> error + 'b \<Rightarrow> error + 'a \<times> 'b" where
  "Promise_all r1 r2 =
     (case r1 of
        Inl e \<Rightarrow> Inl e
      | Inr a \<Rightarrow> (case r2 of Inl e \<Rightarrow> Inl e | Inr b \<Rightarrow> Inr (a, b)))"

text \<open>\<open>/duplicate key value violates unique constraint/.test(String(error))\<close>.\<close>

fun contains :: "string \<Rightarrow> string \<Rightarrow> bool" where
  "contains [] pattern = (pattern = [])"
| "contains (c # cs) pattern =
     (take (length pattern) (c # cs) = pattern \<or> contains cs pattern)"

section \<open>lib/pg-persistence.js, the single-user store\<close>

definition isDoneTodoList_single :: "pg_todoList \<Rightarrow> bool" where
  "isDoneTodoList_single todoList \<longleftrightarrow>
     length (tl_todos todoList) > 0 \<and> list_all td_done (tl_todos todoList)"

definition partitionTodoLists_single :: "pg_todoList list \<Rightarrow> pg_todoList list" where
  "partitionTodoLists_single todoLists =
     (let (undone, done) =
        foldl (\<lambda>(undone, done) todoList.
                 if isDoneTodoList_single todoList then (undone, done @ [todoList])
                 else (undone @ [todoList], done))
          ([], []) todoLists
      in undone @ done)"

text \<open>The \<open>for\<close> loop of \<open>sortedTodoLists\<close>: one query for the todos of each list.\<close>

fun find_todos_loop ::
  "'s dbQuery \<Rightarrow> todolist_row list \<Rightarrow> 's \<Rightarrow> (error + pg_todoList list) \<times> 's" where
  "find_todos_loop dbQuery [] s = (Inr [], s)"
| "find_todos_loop dbQuery (todoList # rest) s =
     (let FIND_TODOS = SELECT Star Todos [(Todolist_id, 1)] []
      in case dbQuery FIND_TODOS [Num (tl_id todoList)] s of
           (Inl e, s1) \<Rightarrow> (Inl e, s1)
         | (Inr result, s1) \<Rightarrow>
             (case find_todos_loop dbQuery rest s1 of
                (Inl e, s2) \<Rightarrow> (Inl e, s2)
              | (Inr done, s2) \<Rightarrow>
                  (Inr (set_todos todoList (todo_rows (rows result)) # done), s2)))"

definition sortedTodoLists_single ::
  "'s dbQuery \<Rightarrow> 's \<Rightarrow> (error + pg_todoList list) \<times> 's" where
  "sortedTodoLists_single dbQuery s =
     (let ALL_TODO_LISTS = SELECT Star Todolists [] [ByLower Title]
      in case dbQuery ALL_TODO_LISTS [] s of
           (Inl e, s1) \<Rightarrow> (Inl e, s1)
         | (Inr result, s1) \<Rightarrow>
             (case find_todos_loop dbQuery (todolist_rows (rows result)) s1 of
                (Inl e, s2) \<Rightarrow> (Inl e, s2)
              | (Inr todoLists, s2) \<Rightarrow> (Inr (partitionTodoLists_single todoLists), s2)))"

definition deleteTodoList_single :: "'s dbQuery \<Rightarrow> int \<Rightarrow> 's \<Rightarrow> (error + bool) \<times> 's" where
  "deleteTodoList_single dbQuery todoListId s =
     (let DELETE_TODO_LIST = DELETE Todolists [(Id, 1)];
          CHECK_TODOS = SELECT Star Todos [(Todolist_id, 1)] []
      in case dbQuery DELETE_TODO_LIST [Num todoListId] s of
           (Inl e, s1) \<Rightarrow> (Inl e, s1)
         | (Inr deleteResult, s1) \<Rightarrow>
             (case dbQuery DELETE_TODO_LIST [Num todoListId] s1 of
                (Inl e, s2) \<Rightarrow> (Inl e, s2)
              | (Inr confirmResult, s2) \<Rightarrow>
                  (Inr (rowCount deleteResult > 0 \<and> rowCount confirmResult = 0), s2)))"

definition isUniqueConstraintViolation_single :: "error \<Rightarrow> bool" where
  "isUniqueConstraintViolation_single error =
     contains (String_of_error error) ''duplicate key value violates unique constraint''"

definition createdTodoList_single ::
  "'s dbQuery \<Rightarrow> jsstring \<Rightarrow> 's \<Rightarrow> (error + bool) \<times> 's" where
  "createdTodoList_single dbQuery todoListTitle s =
     (let CREATE_TODO_LIST = INSERT Todolists [Title]
      in case dbQuery CREATE_TODO_LIST [Str todoListTitle] s of
           (Inr result, s1) \<Rightarrow> (Inr (rowCount result > 0), s1)
         | (Inl error, s1) \<Rightarrow>
             (if isUniqueConstraintViolation_single error then Inr False else Inl error, s1))"

definition toggleTodo_single ::
  "'s dbQuery \<Rightarrow> int \<Rightarrow> int \<Rightarrow> 's \<Rightarrow> (error + bool) \<times> 's" where
  "toggleTodo_single dbQuery todoListId todoId s =
     (let UPDATE_TODO_STATUS = UPDATE Todos ToggleDone [(Todolist_id, 1), (Id, 2)]
      in case dbQuery UPDATE_TODO_STATUS [Num todoListId, Num todoId] s of
           (Inl e, s1) \<Rightarrow> (Inl e, s1)
         | (Inr result, s1) \<Rightarrow> (Inr (rowCount result > 0), s1))"

definition completeAllTodos_single ::
  "'s dbQuery \<Rightarrow> int \<Rightarrow> 's \<Rightarrow> (error + bool) \<times> 's" where
  "completeAllTodos_single dbQuery todoListId s =
     (let MARK_ALL_COMPLETE = UPDATE Todos SetDoneTrue [(Todolist_id, 1)];
          NUM_TODOS = SELECT Star Todos [(Todolist_id, 1)] []
      in case dbQuery MARK_ALL_COMPLETE [Num todoListId] s of
           (markCompleteResult, s1) \<Rightarrow>
             (case dbQuery NUM_TODOS [Num todoListId] s1 of
                (numTodosResult, s2) \<Rightarrow>
                  (case Promise_all markCompleteResult numTodosResult of
                     Inl e \<Rightarrow> (Inl e, s2)
                   | Inr (r0, r1) \<Rightarrow> (Inr (rowCount r0 = rowCount r1), s2))))"

section \<open>lib/pg-persistence.js, the multi-user store\<close>

text \<open>
  The session of the request: \<open>username\<close> is a string once the user has signed in and
  \<open>undefined\<close> (\<open>None\<close>) before. A parameter that is \<open>undefined\<close> is sent as \<open>NULL\<close>.
\<close>

record session =
  session_username :: "jsstring option"

record PgPersistence =
  this_username :: "jsstring option"

definition constructor :: "session \<Rightarrow> PgPersistence" where
  "constructor session = \<lparr>this_username = session_username session\<rparr>"

definition param :: "jsstring option \<Rightarrow> val" where
  "param v = (case v of None \<Rightarrow> Null | Some str \<Rightarrow> Str str)"

definition loadTodoList_multi ::
  "'s dbQuery \<Rightarrow> PgPersistence \<Rightarrow> int \<Rightarrow> 's \<Rightarrow> (error + pg_todoList option) \<times> 's" where
  "loadTodoList_multi dbQuery this todoListId s =
     (let GET_TODOLIST = SELECT Star Todolists [(Id, 1), (Username, 2)] [];
          GET_TODOS = SELECT Star Todos [(Todolist_id, 1), (Username, 2)] []
      in case dbQuery GET_TODOLIST [Num todoListId, param (this_username this)] s of
           (todoListResult, s1) \<Rightarrow>
             (case dbQuery GET_TODOS [Num todoListId, param (this_username this)] s1 of
                (todosResult, s2) \<Rightarrow>
                  (case Promise_all todoListResult todosResult of
                     Inl e \<Rightarrow> (Inl e, s2)
                   | Inr (r0, r1) \<Rightarrow>
                       (case todolist_rows (rows r0) of
                          [] \<Rightarrow> (Inr None, s2)
                        | todoList # _ \<Rightarrow>
                            (Inr (Some (set_todos todoList (todo_rows (rows r1)))), s2)))))"

definition loadTodo_multi ::
  "'s dbQuery \<Rightarrow> PgPersistence \<Rightarrow> int \<Rightarrow> int \<Rightarrow> 's \<Rightarrow> (error + row option) \<times> 's" where
  "loadTodo_multi dbQuery this todoListId todoId s =
     (let FIND_TODO = SELECT Star Todos [(Todolist_id, 1), (Id, 2), (Username, 3)] []
      in case dbQuery FIND_TODO [Num todoListId, Num todoId, param (this_username this)] s of
           (Inl e, s1) \<Rightarrow> (Inl e, s1)
         | (Inr result, s1) \<Rightarrow>
             (case rows result of [] \<Rightarrow> (Inr None, s1) | r # _ \<Rightarrow> (Inr (Some r), s1)))"

definition isDoneTodoList_multi :: "pg_todoList \<Rightarrow> bool" where
  "isDoneTodoList_multi todoList \<longleftrightarrow>
     length (tl_todos todoList) > 0 \<and> list_all td_done (tl_todos todoList)"

definition partitionTodoLists_multi :: "pg_todoList list \<Rightarrow> pg_todoList list" where
  "partitionTodoLists_multi todoLists =
     (let (undone, done) =
        foldl (\<lambda>(undone, done) todoList.
                 if isDoneTodoList_multi todoList then (undone, done @ [todoList])
                 else (undone @ [todoList], done))
          ([], []) todoLists
      in undone @ done)"

definition sortedTodoLists_multi ::
  "'s dbQuery \<Rightarrow> PgPersistence \<Rightarrow> 's \<Rightarrow> (error + pg_todoList list) \<times> 's" where
  "sortedTodoLists_multi dbQuery this s =
     (let ALL_TODO_LISTS = SELECT Star Todolists [(Username, 1)] [ByLower Title];
          ALL_TODOS = SELECT Star Todos [(Username, 1)] []
      in case dbQuery ALL_TODO_LISTS [param (this_username this)] s of
           (todoListResult, s1) \<Rightarrow>
             (case dbQuery ALL_TODOS [param (this_username this)] s1 of
                (todosResult, s2) \<Rightarrow>
                  (case Promise_all todoListResult todosResult of
                     Inl e \<Rightarrow> (Inl e, s2)
                   | Inr (r0, r1) \<Rightarrow>
                       (let allTodoLists = todolist_rows (rows r0);
                            allTodos = todo_rows (rows r1)
                        in (Inr (partitionTodoLists_multi
                                   (map (\<lambda>todoList.
                                           set_todos todoList
                                             (filter (\<lambda>todo. td_todolist_id todo = tl_id todoList)
                                                allTodos))
                                      allTodoLists)),
                            s2)))))"

definition sortedTodos_multi ::
  "'s dbQuery \<Rightarrow> PgPersistence \<Rightarrow> pg_todoList \<Rightarrow> 's \<Rightarrow> (error + row list) \<times> 's" where
  "sortedTodos_multi dbQuery this todoList s =
     (let FIND_TODOS =
            SELECT Star Todos [(Todolist_id, 1), (Username, 2)] [ByCol Done, ByLower Title]
      in case dbQuery FIND_TODOS [Num (tl_id todoList), param (this_username this)] s of
           (Inl e, s1) \<Rightarrow> (Inl e, s1)
         | (Inr result, s1) \<Rightarrow> (Inr (rows result), s1))"

definition hasUndoneTodos_multi :: "pg_todoList \<Rightarrow> bool" where
  "hasUndoneTodos_multi todoList \<longleftrightarrow> list_ex (\<lambda>todo. \<not> td_done todo) (tl_todos todoList)"

definition existsTodoListTitle_multi ::
  "'s dbQuery \<Rightarrow> PgPersistence \<Rightarrow> jsstring \<Rightarrow> 's \<Rightarrow> (error + bool) \<times> 's" where
  "existsTodoListTitle_multi dbQuery this title s =
     (let TITLE_EXISTS = SELECT Star Todolists [(Title, 1), (Username, 2)] []
      in case dbQuery TITLE_EXISTS [Str title, param (this_username this)] s of
           (Inl e, s1) \<Rightarrow> (Inl e, s1)
         | (Inr result, s1) \<Rightarrow> (Inr (rowCount result > 0), s1))"

definition deleteTodoList_multi ::
  "'s dbQuery \<Rightarrow> PgPersistence \<Rightarrow> int \<Rightarrow> 's \<Rightarrow> (error + bool) \<times> 's" where
  "deleteTodoList_multi dbQuery this todoListId s =
     (let DELETE_TODO_LIST = DELETE Todolists [(Id, 1), (Username, 2)];
          CHECK_TODOS = SELECT Star Todos [(Todolist_id, 1), (Username, 2)] []
      in case dbQuery DELETE_TODO_LIST [Num todoListId, param (this_username this)] s of
           (Inl e, s1) \<Rightarrow> (Inl e, s1)
         | (Inr deleteResult, s1) \<Rightarrow>
             (case dbQuery CHECK_TODOS [Num todoListId, param (this_username this)] s1 of
                (Inl e, s2) \<Rightarrow> (Inl e, s2)
              | (Inr confirmResult, s2) \<Rightarrow>
                  (Inr (rowCount deleteResult > 0 \<and> rowCount confirmResult = 0), s2)))"

definition isUniqueConstraintViolation_multi :: "error \<Rightarrow> bool" where
  "isUniqueConstraintViolation_multi error =
     contains (String_of_error error) ''duplicate key value violates unique constraint''"

definition createdTodoList_multi ::
  "'s dbQuery \<Rightarrow> PgPersistence \<Rightarrow> jsstring \<Rightarrow> 's \<Rightarrow> (error + bool) \<times> 's" where
  "createdTodoList_multi dbQuery this todoListTitle s =
     (let CREATE_TODO_LIST = INSERT Todolists [Title, Username]
      in case dbQuery CREATE_TODO_LIST [Str todoListTitle, param (this_username this)] s of
           (Inr result, s1) \<Rightarrow> (Inr (rowCount result > 0), s1)
         | (Inl error, s1) \<Rightarrow>
             (if isUniqueConstraintViolation_multi error then Inr False else Inl error, s1))"

definition toggleTodo_multi ::
  "'s dbQuery \<Rightarrow> PgPersistence \<Rightarrow> int \<Rightarrow> int \<Rightarrow> 's \<Rightarrow> (error + bool) \<times> 's" where
  "toggleTodo_multi dbQuery this todoListId todoId s =
     (let UPDATE_TODO_STATUS =
            UPDATE Todos ToggleDone [(Todolist_id, 1), (Id, 2), (Username, 3)]
      in case dbQuery UPDATE_TODO_STATUS
                [Num todoListId, Num todoId, param (this_username this)] s of
           (Inl e, s1) \<Rightarrow> (Inl e, s1)
         | (Inr result, s1) \<Rightarrow> (Inr (rowCount result > 0), s1))"

text \<open>
  \<open>deleteTodo\<close> passes the two ids only: its statement has three placeholders, and
  \<open>this.username\<close> is not among the parameters of the call.
\<close>

definition deleteTodo_multi ::
  "'s dbQuery \<Rightarrow> PgPersistence \<Rightarrow> int \<Rightarrow> int \<Rightarrow> 's \<Rightarrow> (error + bool) \<times> 's" where
  "deleteTodo_multi dbQuery this todoListId todoId s =
     (let DELETE_TODO = DELETE Todos [(Todolist_id, 1), (Id, 2), (Username, 3)]
      in case dbQuery DELETE_TODO [Num todoListId, Num todoId] s of
           (Inl e, s1) \<Rightarrow> (Inl e, s1)
         | (Inr result, s1) \<Rightarrow> (Inr (rowCount result > 0), s1))"

definition addedTodo_multi ::
  "'s dbQuery \<Rightarrow> PgPersistence \<Rightarrow> int \<Rightarrow> jsstring \<Rightarrow> 's \<Rightarrow> (error + bool) \<times> 's" where
  "addedTodo_multi dbQuery this todoListId todoTitle s =
     (let ADD_TODO = INSERT Todos [Title, Todolist_id, Username]
      in case dbQuery ADD_TODO [Str todoTitle, Num todoListId, param (this_username this)] s of
           (Inl e, s1) \<Rightarrow> (Inl e, s1)
         | (Inr result, s1) \<Rightarrow> (Inr (rowCount result = 1), s1))"

definition completeAllTodos_multi ::
  "'s dbQuery \<Rightarrow> PgPersistence \<Rightarrow> int \<Rightarrow> 's \<Rightarrow> (error + bool) \<times> 's" where
  "completeAllTodos_multi dbQuery this todoListId s =
     (let MARK_ALL_COMPLETE = UPDATE Todos SetDoneTrue [(Todolist_id, 1), (Username, 2)];
          NUM_TODOS = SELECT Star Todos [(Todolist_id, 1), (Username, 2)] []
      in case dbQuery MARK_ALL_COMPLETE [Num todoListId, param (this_username this)] s of
           (markCompleteResult, s1) \<Rightarrow>
             (case dbQuery NUM_TODOS [Num todoListId, param (this_username this)] s1 of
                (numTodosResult, s2) \<Rightarrow>
                  (case Promise_all markCompleteResult numTodosResult of
                     Inl e \<Rightarrow> (Inl e, s2)
                   | Inr (r0, r1) \<Rightarrow> (Inr (rowCount r0 = rowCount r1), s2))))"

definition setTodoListTitle_multi ::
  "'s dbQuery \<Rightarrow> PgPersistence \<Rightarrow> int \<Rightarrow> jsstring \<Rightarrow> 's \<Rightarrow> (error + bool) \<times> 's" where
  "setTodoListTitle_multi dbQuery this todoListId todoListTitle s =
     (let SET_TODO_LIST_TITLE = UPDATE Todolists (SetTitle 1) [(Id, 2), (Username, 3)]
      in case dbQuery SET_TODO_LIST_TITLE
                [Str todoListTitle, Num todoListId, param (this_username this)] s of
           (Inl e, s1) \<Rightarrow> (Inl e, s1)
         | (Inr result, s1) \<Rightarrow> (Inr (rowCount result > 0), s1))"

text \<open>
  \<open>bcrypt.compare(password, hash)\<close> is a parameter. \<open>result.rows[0].password\<close> is the
  \<open>password\<close> column of the first row.
\<close>

definition row_password :: "row \<Rightarrow> jsstring option" where
  "row_password r =
     (case r of
        UserRow u \<Rightarrow> Some (us_password u)
      | ProjRow kvs \<Rightarrow> (case map_of kvs Password of Some (Str hash) \<Rightarrow> Some hash | _ \<Rightarrow> None)
      | _ \<Rightarrow> None)"

definition bcrypt_arguments_required :: error where
  "bcrypt_arguments_required = JsError ''Error'' ''data and hash arguments required''"

definition isValidLogin ::
  "(jsstring \<Rightarrow> jsstring \<Rightarrow> bool) \<Rightarrow> 's dbQuery \<Rightarrow> PgPersistence \<Rightarrow> jsstring \<Rightarrow> jsstring \<Rightarrow> 's
     \<Rightarrow> (error + bool) \<times> 's" where
  "isValidLogin bcrypt_compare dbQuery this username password s =
     (let CHECK_LOGIN_STATUS = SELECT (Cols [Password]) Users [(Username, 1)] []
      in case dbQuery CHECK_LOGIN_STATUS [Str username] s of
           (Inl e, s1) \<Rightarrow> (Inl e, s1)
         | (Inr result, s1) \<Rightarrow>
             (if rowCount result = 0 then (Inr False, s1)
              else (case rows result of
                      [] \<Rightarrow> (Inl (undefined_property ''password''), s1)
                    | r # _ \<Rightarrow>
                        (case row_password r of
                           None \<Rightarrow> (Inl bcrypt_arguments_required, s1)
                         | Some hash \<Rightarrow> (Inr (bcrypt_compare password hash), s1)))))"

section \<open>The database behind dbQuery\<close>

text \<open>
  Modelled from the spec: \<open>lib/db-query.js\<close> and the schema are not among the sources.
  The spec gives the schema as \<open>todolists(id PK, title, [username])\<close>,
  \<open>todos(id PK, title, done boolean, todolist_id FK \<rightarrow> todolists.id ON DELETE CASCADE,
  [username])\<close> and \<open>users(username PK, password hash)\<close>, the title of a list unique for
  its owner. \<open>pgQuery\<close> runs one statement on such a database, as PostgreSQL does
  behind \<open>client.query(statement, parameters)\<close>: a statement is bound to exactly as
  many parameters as it has placeholders, a comparison with \<open>NULL\<close> holds for no row,
  and a statement that fails changes nothing. \<open>LOWER\<close> is the database's own function,
  fixed by the locale the database was created with: it is the field \<open>db_lower\<close> of the
  database, and nothing below depends on what it does to a string. \<open>ORDER BY\<close> compares
  strings by their code units, and rows that compare equal stay in table order. The
  single-user schema has no \<open>username\<close> column: there the field is \<open>None\<close> in every row.
\<close>

record db =
  todolists :: "todolist_row list"
  todos :: "todo_row list"
  users :: "user_row list"
  todolists_id_seq :: int
  todos_id_seq :: int
  db_lower :: "jsstring \<Rightarrow> jsstring"

fun todolist_col :: "todolist_row \<Rightarrow> col \<Rightarrow> val option" where
  "todolist_col r Id = Some (Num (tl_id r))"
| "todolist_col r Title = Some (Str (tl_title r))"
| "todolist_col r Username = Some (param (tl_username r))"
| "todolist_col r _ = None"

fun todo_col :: "todo_row \<Rightarrow> col \<Rightarrow> val option" where
  "todo_col r Id = Some (Num (td_id r))"
| "todo_col r Title = Some (Str (td_title r))"
| "todo_col r Done = Some (Bool (td_done r))"
| "todo_col r Todolist_id = Some (Num (td_todolist_id r))"
| "todo_col r Username = Some (param (td_username r))"
| "todo_col r _ = None"

fun user_col :: "user_row \<Rightarrow> col \<Rightarrow> val option" where
  "user_col r Username = Some (Str (us_username r))"
| "user_col r Password = Some (Str (us_password r))"
| "user_col r _ = None"

text \<open>The \<open>WHERE\<close> clause on one row: every \<open>column = $n\<close> holds.\<close>

definition holds :: "val list \<Rightarrow> (col \<Rightarrow> val option) \<Rightarrow> cond \<Rightarrow> bool" where
  "holds ps get cond =
     list_all (\<lambda>(c, n). 1 \<le> n \<and> n \<le> length ps \<and> ps ! (n - 1) \<noteq> Null \<and>
                         get c = Some (ps ! (n - 1))) cond"

text \<open>The sort key of \<open>ORDER BY LOWER(c)\<close> and of \<open>ORDER BY c\<close>; \<open>false\<close> comes before \<open>true\<close>.\<close>

fun ord_key :: "(jsstring \<Rightarrow> jsstring) \<Rightarrow> (col \<Rightarrow> val option) \<Rightarrow> ordering \<Rightarrow> jsstring" where
  "ord_key lower get (ByLower c) = (case get c of Some (Str str) \<Rightarrow> lower str | _ \<Rightarrow> [])"
| "ord_key lower get (ByCol c) =
     (case get c of
        Some (Str str) \<Rightarrow> str
      | Some (Bool b) \<Rightarrow> (if b then [1] else [0])
      | _ \<Rightarrow> [])"

definition select_from ::
  "(jsstring \<Rightarrow> jsstring) \<Rightarrow> ('r \<Rightarrow> col \<Rightarrow> val option) \<Rightarrow> ('r \<Rightarrow> row) \<Rightarrow> selection \<Rightarrow> cond
     \<Rightarrow> ordering list \<Rightarrow> val list \<Rightarrow> 'r list \<Rightarrow> row list" where
  "select_from lower get wrap sel cond ords ps table =
     (let matching = filter (\<lambda>r. holds ps (get r) cond) table;
          ordered = (if ords = [] then matching
                     else sort_key (\<lambda>r. map (ord_key lower (get r)) ords) matching)
      in map (\<lambda>r. case sel of
                     Star \<Rightarrow> wrap r
                   | Cols cs \<Rightarrow>
                       ProjRow (map (\<lambda>c. (c, case get r c of Some v \<Rightarrow> v | None \<Rightarrow> Null)) cs))
           ordered)"

definition placeholders :: "cond \<Rightarrow> nat" where
  "placeholders cond = foldr max (map snd cond) 0"

fun nparams :: "stmt \<Rightarrow> nat" where
  "nparams (SELECT sel t cond ords) = placeholders cond"
| "nparams (DELETE t cond) = placeholders cond"
| "nparams (UPDATE t (SetTitle n) cond) = max n (placeholders cond)"
| "nparams (UPDATE t a cond) = placeholders cond"
| "nparams (INSERT t cols) = length cols"

definition bind_error :: error where
  "bind_error =
     JsError ''error'' ''bind message supplies the wrong number of parameters for the prepared statement''"

definition unique_violation :: error where
  "unique_violation =
     JsError ''error'' ''duplicate key value violates unique constraint todolists_title_key''"

definition foreign_key_violation :: error where
  "foreign_key_violation =
     JsError ''error'' ''insert or update on table todos violates foreign key constraint todos_todolist_id_fkey''"

definition statement_error :: error where
  "statement_error = JsError ''error'' ''the statement is not valid for the schema''"

definition selected :: "row list \<Rightarrow> qresult" where
  "selected rs = \<lparr>rows = rs, rowCount = length rs\<rparr>"

definition affected :: "nat \<Rightarrow> qresult" where
  "affected n = \<lparr>rows = [], rowCount = n\<rparr>"

definition owned_titles :: "todolist_row list \<Rightarrow> (jsstring \<times> jsstring option) list" where
  "owned_titles table = map (\<lambda>r. (tl_title r, tl_username r)) table"

text \<open>
  Modelled from the spec: what one statement does to the database. Deleting a row of
  \<open>todolists\<close> deletes the todos that refer to it; an \<open>INSERT\<close> takes the next id of the
  table's sequence, leaves \<open>done\<close> false, and fails on a title its owner already has
  (\<open>todolists\<close>) or on a \<open>todolist_id\<close> that no list has (\<open>todos\<close>).
\<close>

fun exec :: "stmt \<Rightarrow> val list \<Rightarrow> db \<Rightarrow> (error + qresult) \<times> db" where
  "exec (SELECT sel Todolists cond ords) ps d =
     (Inr (selected
        (select_from (db_lower d) todolist_col TodoListRow sel cond ords ps (todolists d))), d)"
| "exec (SELECT sel Todos cond ords) ps d =
     (Inr (selected (select_from (db_lower d) todo_col TodoRow sel cond ords ps (todos d))), d)"
| "exec (SELECT sel Users cond ords) ps d =
     (Inr (selected (select_from (db_lower d) user_col UserRow sel cond ords ps (users d))), d)"
| "exec (DELETE Todolists cond) ps d =
     (let gone = filter (\<lambda>r. holds ps (todolist_col r) cond) (todolists d)
      in (Inr (affected (length gone)),
          d\<lparr>todolists := filter (\<lambda>r. \<not> holds ps (todolist_col r) cond) (todolists d),
            todos := filter (\<lambda>t. td_todolist_id t \<notin> set (map tl_id gone)) (todos d)\<rparr>))"
| "exec (DELETE Todos cond) ps d =
     (Inr (affected (length (filter (\<lambda>r. holds ps (todo_col r) cond) (todos d)))),
      d\<lparr>todos := filter (\<lambda>r. \<not> holds ps (todo_col r) cond) (todos d)\<rparr>)"
| "exec (DELETE Users cond) ps d =
     (Inr (affected (length (filter (\<lambda>r. holds ps (user_col r) cond) (users d)))),
      d\<lparr>users := filter (\<lambda>r. \<not> holds ps (user_col r) cond) (users d)\<rparr>)"
| "exec (UPDATE Todos ToggleDone cond) ps d =
     (Inr (affected (length (filter (\<lambda>r. holds ps (todo_col r) cond) (todos d)))),
      d\<lparr>todos := map (\<lambda>r. if holds ps (todo_col r) cond then r\<lparr>td_done := \<not> td_done r\<rparr> else r)
                     (todos d)\<rparr>)"
| "exec (UPDATE Todos SetDoneTrue cond) ps d =
     (Inr (affected (length (filter (\<lambda>r. holds ps (todo_col r) cond) (todos d)))),
      d\<lparr>todos := map (\<lambda>r. if holds ps (todo_col r) cond then r\<lparr>td_done := True\<rparr> else r)
                     (todos d)\<rparr>)"
| "exec (UPDATE Todos (SetTitle n) cond) ps d =
     (case (if 1 \<le> n \<and> n \<le> length ps then ps ! (n - 1) else Null) of
        Str title \<Rightarrow>
          (Inr (affected (length (filter (\<lambda>r. holds ps (todo_col r) cond) (todos d)))),
           d\<lparr>todos := map (\<lambda>r. if holds ps (todo_col r) cond then r\<lparr>td_title := title\<rparr> else r)
                          (todos d)\<rparr>)
      | _ \<Rightarrow> (Inl statement_error, d))"
| "exec (UPDATE Todolists (SetTitle n) cond) ps d =
     (case (if 1 \<le> n \<and> n \<le> length ps then ps ! (n - 1) else Null) of
        Str title \<Rightarrow>
          (let hit = filter (\<lambda>r. holds ps (todolist_col r) cond) (todolists d);
               new = map (\<lambda>r. if holds ps (todolist_col r) cond then r\<lparr>tl_title := title\<rparr> else r)
                       (todolists d)
           in if hit = [] then (Inr (affected 0), d)
              else if distinct (owned_titles new)
                then (Inr (affected (length hit)), d\<lparr>todolists := new\<rparr>)
              else (Inl unique_violation, d))
      | _ \<Rightarrow> (Inl statement_error, d))"
| "exec (UPDATE t a cond) ps d = (Inl statement_error, d)"
| "exec (INSERT Todolists cols) ps d =
     (case map_of (zip cols ps) Title of
        Some (Str title) \<Rightarrow>
          (let owner = (case map_of (zip cols ps) Username of
                          Some (Str user) \<Rightarrow> Some user
                        | _ \<Rightarrow> None)
           in if (title, owner) \<in> set (owned_titles (todolists d))
                then (Inl unique_violation, d)
              else (Inr (affected 1),
                    d\<lparr>todolists := todolists d @
                         [\<lparr>tl_id = todolists_id_seq d, tl_title = title, tl_username = owner\<rparr>],
                      todolists_id_seq := todolists_id_seq d + 1\<rparr>))
      | _ \<Rightarrow> (Inl statement_error, d))"
| "exec (INSERT Todos cols) ps d =
     (case (map_of (zip cols ps) Title, map_of (zip cols ps) Todolist_id) of
        (Some (Str title), Some (Num todolist_id)) \<Rightarrow>
          (let owner = (case map_of (zip cols ps) Username of
                          Some (Str user) \<Rightarrow> Some user
                        | _ \<Rightarrow> None)
           in if todolist_id \<notin> set (map tl_id (todolists d))
                then (Inl foreign_key_violation, d)
              else (Inr (affected 1),
                    d\<lparr>todos := todos d @
                         [\<lparr>td_id = todos_id_seq d, td_title = title, td_done = False,
                           td_todolist_id = todolist_id, td_username = owner\<rparr>],
                      todos_id_seq := todos_id_seq d + 1\<rparr>))
      | _ \<Rightarrow> (Inl statement_error, d))"
| "exec (INSERT Users cols) ps d = (Inl statement_error, d)"

text \<open>
  Modelled from the spec: \<open>dbQuery\<close> on the database. The statement is refused when the
  call does not pass as many parameters as the statement has placeholders.
\<close>

definition pgQuery :: "db dbQuery" where
  "pgQuery statement parameters d =
     (if length parameters \<noteq> nparams statement then (Inl bind_error, d)
      else exec statement parameters d)"

text \<open>
  A \<open>dbQuery\<close> that answers every statement with no rows and writes down the statement
  and the parameters of every call, in the order of the calls.
\<close>

definition recordQuery :: "(stmt \<times> val list) list dbQuery" where
  "recordQuery statement parameters log = (Inr (affected 0), log @ [(statement, parameters)])"

section \<open>Example states\<close>

text \<open>
  What \<open>String.prototype.toLowerCase\<close> does to a string whose code units are all below
  256: the letters \<open>A\<close> to \<open>Z\<close> (65 to 90) and the accented capitals U+00C0 to U+00D6 and
  U+00D8 to U+00DE go to their small letters, 32 code units up, and every other code unit
  stays. The examples use it as \<open>toLowerCase\<close> and as the \<open>LOWER\<close> of the database.
\<close>

definition latin1_lower :: "jsstring \<Rightarrow> jsstring" where
  "latin1_lower str =
     map (\<lambda>u. if (65 \<le> u \<and> u \<le> 90) \<or> (192 \<le> u \<and> u \<le> 214) \<or> (216 \<le> u \<and> u \<le> 222)
              then u + 32 else u) str"

definition mail :: todo where
  "mail = \<lparr>todo_id = 1, todo_title = js ''Mail'', todo_done = False\<rparr>"

definition call :: todo where
  "call = \<lparr>todo_id = 2, todo_title = js ''call'', todo_done = True\<rparr>"

definition work :: todoList where
  "work = \<lparr>list_id = 1, list_title = js ''Work'', list_todos = [mail, call]\<rparr>"

definition home :: todoList where
  "home = \<lparr>list_id = 2, list_title = js ''home'', list_todos = [call]\<rparr>"

definition empty_list :: todoList where
  "empty_list = \<lparr>list_id = 3, list_title = js ''Garden'', list_todos = []\<rparr>"

definition example_store :: session_store where
  "example_store = [work, home, empty_list]"

text \<open>
  Lists with no todos, so not done, whose titles differ in case: \<open>garden\<close>, and the
  French word for summer, first with a small and then with a capital first letter (233
  is the code unit U+00E9 of the small letter, 201 the code unit U+00C9 of the capital).
\<close>

definition garden :: todoList where
  "garden = \<lparr>list_id = 4, list_title = js ''garden'', list_todos = []\<rparr>"

definition ete_small :: todoList where
  "ete_small = \<lparr>list_id = 5, list_title = [233, 116, 233], list_todos = []\<rparr>"

definition ete_capital :: todoList where
  "ete_capital = \<lparr>list_id = 6, list_title = [201, 116, 233], list_todos = []\<rparr>"

definition mixed_case_store :: session_store where
  "mixed_case_store = [work, home, ete_small, ete_capital, garden]"

text \<open>Two arrays of todos: the first is not in title order.\<close>

definition example_arrays :: "todo arrays" where
  "example_arrays = (\<lambda>_. [])(0 := [mail, call], 1 := [])"

text \<open>Two todos whose titles are the small and the capital letter U+00E9 and U+00C9.\<close>

definition e_small :: todo where
  "e_small = \<lparr>todo_id = 1, todo_title = [233], todo_done = False\<rparr>"

definition e_capital :: todo where
  "e_capital = \<lparr>todo_id = 2, todo_title = [201], todo_done = False\<rparr>"

definition accent_arrays :: "todo arrays" where
  "accent_arrays = (\<lambda>_. [])(0 := [e_small, e_capital], 1 := [])"

text \<open>
  A database of the multi-user schema, with two users, and the store of the request of
  the user \<open>admin\<close>.
\<close>

definition example_db :: db where
  "example_db =
     \<lparr>todolists =
        [\<lparr>tl_id = 1, tl_title = js ''Work'', tl_username = Some (js ''admin'')\<rparr>,
         \<lparr>tl_id = 2, tl_title = js ''home'', tl_username = Some (js ''admin'')\<rparr>,
         \<lparr>tl_id = 3, tl_title = js ''Away'', tl_username = Some (js ''guest'')\<rparr>],
      todos =
        [\<lparr>td_id = 1, td_title = js ''Mail'', td_done = False, td_todolist_id = 1,
          td_username = Some (js ''admin'')\<rparr>,
         \<lparr>td_id = 2, td_title = js ''call'', td_done = True, td_todolist_id = 1,
          td_username = Some (js ''admin'')\<rparr>,
         \<lparr>td_id = 3, td_title = js ''Cook'', td_done = True, td_todolist_id = 2,
          td_username = Some (js ''admin'')\<rparr>,
         \<lparr>td_id = 4, td_title = js ''Pack'', td_done = False, td_todolist_id = 3,
          td_username = Some (js ''guest'')\<rparr>],
      users =
        [\<lparr>us_username = js ''admin'', us_password = js ''hash of secret''\<rparr>,
         \<lparr>us_username = js ''guest'', us_password = js ''hash of letmein''\<rparr>],
      todolists_id_seq = 4,
      todos_id_seq = 5,
      db_lower = latin1_lower\<rparr>"

definition admin :: PgPersistence where
  "admin = constructor \<lparr>session_username = Some (js ''admin'')\<rparr>"

text \<open>
  The same database after \<open>admin\<close> has added two lists with no todos: \<open>errands\<close>, and one
  whose title starts with the capital letter U+00C9.
\<close>

definition mixed_case_db :: db where
  "mixed_case_db =
     example_db\<lparr>todolists := todolists example_db @
        [\<lparr>tl_id = 4, tl_title = js ''errands'', tl_username = Some (js ''admin'')\<rparr>,
         \<lparr>tl_id = 5, tl_title = [201, 116, 233], tl_username = Some (js ''admin'')\<rparr>]\<rparr>"

text \<open>A database of the single-user schema.\<close>

definition single_db :: db where
  "single_db =
     \<lparr>todolists =
        [\<lparr>tl_id = 1, tl_title = js ''Work'', tl_username = None\<rparr>,
         \<lparr>tl_id = 2, tl_title = js ''home'', tl_username = None\<rparr>],
      todos =
        [\<lparr>td_id = 1, td_title = js ''Mail'', td_done = False, td_todolist_id = 1,
          td_username = None\<rparr>,
         \<lparr>td_id = 3, td_title = js ''Cook'', td_done = True, td_todolist_id = 2,
          td_username = None\<rparr>],
      users = [],
      todolists_id_seq = 3,
      todos_id_seq = 4,
      db_lower = latin1_lower\<rparr>"

definition mixed_case_single_db :: db where
  "mixed_case_single_db =
     single_db\<lparr>todolists := todolists single_db @
        [\<lparr>tl_id = 4, tl_title = js ''errands'', tl_username = None\<rparr>,
         \<lparr>tl_id = 5, tl_title = [201, 116, 233], tl_username = None\<rparr>]\<rparr>"

text \<open>A stand-in for \<open>bcrypt.compare\<close>, and a \<open>dbQuery\<close> whose database cannot be reached.\<close>

definition example_compare :: "jsstring \<Rightarrow> jsstring \<Rightarrow> bool" where
  "example_compare password hash \<longleftrightarrow> hash = js ''hash of '' @ password"

definition refusedQuery :: "db dbQuery" where
  "refusedQuery statement parameters d = (Inl (JsError ''Error'' ''connect ECONNREFUSED''), d)"

section \<open>Strings\<close>

lemma js_eq_iff [simp]: "js a = js b \<longleftrightarrow> a = b"
proof -
  have "inj (of_char :: char \<Rightarrow> nat)"
    by (rule injI) simp
  then show ?thesis
    by (simp add: js_def inj_map_eq_map)
qed

section \<open>Sorting\<close>

lemma compareByTitle_le:
  "compareByTitle toLowerCase title a b \<le> 0 \<longleftrightarrow> toLowerCase (title a) \<le> toLowerCase (title b)"
  by (auto simp: compareByTitle_def Let_def)

lemma sort_insert_insort:
  "sort_insert (compareByTitle toLowerCase title) x ys =
     insort_key (\<lambda>a. toLowerCase (title a)) x ys"
  by (induction ys) (simp_all add: compareByTitle_le)

lemma Array_sort_sort_key:
  "Array_sort (compareByTitle toLowerCase title) xs = sort_key (\<lambda>a. toLowerCase (title a)) xs"
proof -
  have "sort_insert (compareByTitle toLowerCase title) =
        insort_key (\<lambda>a. toLowerCase (title a))"
    by (intro ext) (rule sort_insert_insort)
  then show ?thesis
    by (simp add: Array_sort_def sort_key_def)
qed

lemma mset_Array_sort: "mset (Array_sort (compareByTitle toLowerCase title) xs) = mset xs"
  by (simp add: Array_sort_sort_key)

lemma sorted_Array_sort:
  "sorted (map (\<lambda>a. toLowerCase (title a)) (Array_sort (compareByTitle toLowerCase title) xs))"
  by (simp add: Array_sort_sort_key)

lemma insort_singleton_key:
  "insort_key (\<lambda>r. [f r :: jsstring]) x xs = insort_key f x xs"
  by (induction xs) (auto simp: le_less)

lemma sort_singleton_key: "sort_key (\<lambda>r. [f r :: jsstring]) xs = sort_key f xs"
  by (induction xs) (simp_all add: insort_singleton_key)

lemma partition_foldl:
  "foldl (\<lambda>(undone, done) x. if P x then (undone, done @ [x]) else (undone @ [x], done))
     (us, ds) xs = (us @ filter (\<lambda>x. \<not> P x) xs, ds @ filter P xs)"
  by (induction xs arbitrary: us ds) simp_all

lemma partitionTodoLists_single_filter:
  "partitionTodoLists_single xs =
     filter (\<lambda>x. \<not> isDoneTodoList_single x) xs @ filter isDoneTodoList_single xs"
  by (simp add: partitionTodoLists_single_def partition_foldl)

lemma partitionTodoLists_multi_filter:
  "partitionTodoLists_multi xs =
     filter (\<lambda>x. \<not> isDoneTodoList_multi x) xs @ filter isDoneTodoList_multi xs"
  by (simp add: partitionTodoLists_multi_def partition_foldl)

text \<open>
  A list sorted by a key and then split into the items without \<open>P\<close> followed by the
  items with \<open>P\<close>: both parts are still sorted, and no item is lost or added.
\<close>

lemma undone_then_done:
  fixes k :: "'a \<Rightarrow> jsstring" and P :: "'a \<Rightarrow> bool" and xs :: "'a list"
  assumes "sorted (map k xs)"
  defines "r \<equiv> filter (\<lambda>x. \<not> P x) xs @ filter P xs"
  shows "r = filter (\<lambda>x. \<not> P x) r @ filter P r"
    and "mset r = mset xs"
    and "sorted (map k (filter (\<lambda>x. \<not> P x) r))"
    and "sorted (map k (filter P r))"
proof -
  have us: "filter (\<lambda>x. \<not> P x) r = filter (\<lambda>x. \<not> P x) xs"
    and ds: "filter P r = filter P xs"
    by (simp_all add: r_def)
  show "r = filter (\<lambda>x. \<not> P x) r @ filter P r"
    unfolding us ds by (simp add: r_def)
  show "mset r = mset xs"
    unfolding r_def by (induction xs) simp_all
  have "sorted (map k (filter Q xs))" for Q
    using assms(1) by (induction xs) auto
  then show "sorted (map k (filter (\<lambda>x. \<not> P x) r))" and "sorted (map k (filter P r))"
    unfolding us ds by simp_all
qed

section \<open>Reading the queries of the relational stores\<close>

lemma todolist_rows_map [simp]: "todolist_rows (map TodoListRow xs) = xs"
  by (induction xs) simp_all

lemma todo_rows_map [simp]: "todo_rows (map TodoRow xs) = xs"
  by (induction xs) simp_all

lemma param_eq_Str [simp]: "param w = Str u \<longleftrightarrow> w = Some u"
  by (simp add: param_def split: option.splits)

lemma param_eq_Null [simp]: "param w = Null \<longleftrightarrow> w = None"
  by (simp add: param_def split: option.splits)

lemma param_inj [simp]: "param v = param w \<longleftrightarrow> v = w"
  by (simp add: param_def split: option.splits)

lemma holds_Nil [simp]: "holds ps get [] = True"
  by (simp add: holds_def)

lemma holds_Cons [simp]:
  "holds ps get ((c, n) # cond) \<longleftrightarrow>
     1 \<le> n \<and> n \<le> length ps \<and> ps ! (n - 1) \<noteq> Null \<and> get c = Some (ps ! (n - 1)) \<and>
     holds ps get cond"
  by (simp add: holds_def)

lemma constructor_username [simp]:
  "this_username (constructor \<lparr>session_username = w\<rparr>) = w"
  by (simp add: constructor_def)

lemma tl_title_set_todos [simp]: "tl_title (set_todos L ts) = tl_title L"
  by (simp add: set_todos_def)

lemma tl_id_set_todos [simp]: "tl_id (set_todos L ts) = tl_id L"
  by (simp add: set_todos_def)

lemmas pg_defs = pgQuery_def placeholders_def selected_def affected_def select_from_def

section \<open>sortedTodoLists\<close>

lemma sortedTodoLists_session_eq:
  "sortedTodoLists_session toLowerCase S =
     (filter (\<lambda>L. \<not> isDoneTodoList_session L) (sort_key (\<lambda>L. toLowerCase (list_title L)) S) @
      filter isDoneTodoList_session (sort_key (\<lambda>L. toLowerCase (list_title L)) S), S)"
  by (simp add: sortedTodoLists_session_def sortTodoItems_def deepCopy_def Let_def
      Array_sort_sort_key filter_sort)

lemma sortedTodoLists_multi_eq:
  "sortedTodoLists_multi pgQuery (constructor \<lparr>session_username = Some u\<rparr>) d =
     (Inr (partitionTodoLists_multi
        (map (\<lambda>L. set_todos L (filter (\<lambda>t. td_todolist_id t = tl_id L)
                 (filter (\<lambda>t. td_username t = Some u) (todos d))))
           (sort_key (\<lambda>L. db_lower d (tl_title L))
              (filter (\<lambda>L. tl_username L = Some u) (todolists d))))), d)"
  by (simp add: sortedTodoLists_multi_def pg_defs Promise_all_def sort_singleton_key)

lemma find_todos_loop_pgQuery:
  "find_todos_loop pgQuery Ls d =
     (Inr (map (\<lambda>L. set_todos L (filter (\<lambda>t. td_todolist_id t = tl_id L) (todos d))) Ls), d)"
  by (induction Ls) (simp_all add: pg_defs)

lemma sortedTodoLists_single_eq:
  "sortedTodoLists_single pgQuery d =
     (Inr (partitionTodoLists_single
        (map (\<lambda>L. set_todos L (filter (\<lambda>t. td_todolist_id t = tl_id L) (todos d)))
           (sort_key (\<lambda>L. db_lower d (tl_title L)) (todolists d)))), d)"
  by (simp add: sortedTodoLists_single_def pg_defs sort_singleton_key find_todos_loop_pgQuery)

lemma sorted_set_todos:
  "sorted (map (\<lambda>L. lower (tl_title L))
     (map (\<lambda>L. set_todos L (f L)) (sort_key (\<lambda>L. lower (tl_title L)) Ls)))"
  using sorted_sort_key [of "\<lambda>L. lower (tl_title L)" Ls]
  by (simp add: o_def)

text \<open>
  C3. \<open>sortedTodoLists()\<close> returns the lists of the store (in the relational stores:
  the rows of \<open>todolists\<close>, of the user in the multi-user store, each with its todos),
  the lists that are not done first and the done lists after them, and in each of the
  two groups the lower-cased titles ascend: lower-cased by \<open>toLowerCase\<close> in the session
  store and by the \<open>LOWER\<close> of the database in the relational stores, whatever the two
  functions are. The call leaves the store as it was, so a second call returns the same
  sequence.
\<close>

theorem sortedTodoLists_undone_then_done:
  "(let r = fst (sortedTodoLists_session toLowerCase S)
    in r = filter (\<lambda>L. \<not> isDoneTodoList_session L) r @ filter isDoneTodoList_session r \<and>
       mset r = mset S \<and>
       sorted (map (\<lambda>L. toLowerCase (list_title L)) (filter (\<lambda>L. \<not> isDoneTodoList_session L) r)) \<and>
       sorted (map (\<lambda>L. toLowerCase (list_title L)) (filter isDoneTodoList_session r)) \<and>
       snd (sortedTodoLists_session toLowerCase S) = S \<and>
       fst (sortedTodoLists_session toLowerCase (snd (sortedTodoLists_session toLowerCase S))) = r) \<and>
   (\<exists>r. sortedTodoLists_multi pgQuery (constructor \<lparr>session_username = Some u\<rparr>) d = (Inr r, d) \<and>
       r = filter (\<lambda>L. \<not> isDoneTodoList_multi L) r @ filter isDoneTodoList_multi r \<and>
       mset r =
         mset (map (\<lambda>L. set_todos L (filter (\<lambda>t. td_todolist_id t = tl_id L)
                           (filter (\<lambda>t. td_username t = Some u) (todos d))))
                 (filter (\<lambda>L. tl_username L = Some u) (todolists d))) \<and>
       sorted (map (\<lambda>L. db_lower d (tl_title L)) (filter (\<lambda>L. \<not> isDoneTodoList_multi L) r)) \<and>
       sorted (map (\<lambda>L. db_lower d (tl_title L)) (filter isDoneTodoList_multi r))) \<and>
   (\<exists>r. sortedTodoLists_single pgQuery d = (Inr r, d) \<and>
       r = filter (\<lambda>L. \<not> isDoneTodoList_single L) r @ filter isDoneTodoList_single r \<and>
       mset r =
         mset (map (\<lambda>L. set_todos L (filter (\<lambda>t. td_todolist_id t = tl_id L) (todos d)))
                 (todolists d)) \<and>
       sorted (map (\<lambda>L. db_lower d (tl_title L)) (filter (\<lambda>L. \<not> isDoneTodoList_single L) r)) \<and>
       sorted (map (\<lambda>L. db_lower d (tl_title L)) (filter isDoneTodoList_single r)))"
proof (intro conjI)
  let ?k = "\<lambda>L. toLowerCase (list_title L)"
  note s = undone_then_done [of ?k "sort_key ?k S" isDoneTodoList_session, OF sorted_sort_key]
  show "let r = fst (sortedTodoLists_session toLowerCase S)
    in r = filter (\<lambda>L. \<not> isDoneTodoList_session L) r @ filter isDoneTodoList_session r \<and>
       mset r = mset S \<and>
       sorted (map ?k (filter (\<lambda>L. \<not> isDoneTodoList_session L) r)) \<and>
       sorted (map ?k (filter isDoneTodoList_session r)) \<and>
       snd (sortedTodoLists_session toLowerCase S) = S \<and>
       fst (sortedTodoLists_session toLowerCase (snd (sortedTodoLists_session toLowerCase S))) = r"
    unfolding Let_def sortedTodoLists_session_eq fst_conv snd_conv
    using s by simp
next
  let ?k = "\<lambda>L. db_lower d (tl_title L)"
  let ?xs = "map (\<lambda>L. set_todos L (filter (\<lambda>t. td_todolist_id t = tl_id L)
                 (filter (\<lambda>t. td_username t = Some u) (todos d))))
           (sort_key ?k (filter (\<lambda>L. tl_username L = Some u) (todolists d)))"
  note m = undone_then_done [of ?k ?xs isDoneTodoList_multi, OF sorted_set_todos]
  show "\<exists>r. sortedTodoLists_multi pgQuery (constructor \<lparr>session_username = Some u\<rparr>) d = (Inr r, d) \<and>
       r = filter (\<lambda>L. \<not> isDoneTodoList_multi L) r @ filter isDoneTodoList_multi r \<and>
       mset r =
         mset (map (\<lambda>L. set_todos L (filter (\<lambda>t. td_todolist_id t = tl_id L)
                           (filter (\<lambda>t. td_username t = Some u) (todos d))))
                 (filter (\<lambda>L. tl_username L = Some u) (todolists d))) \<and>
       sorted (map ?k (filter (\<lambda>L. \<not> isDoneTodoList_multi L) r)) \<and>
       sorted (map ?k (filter isDoneTodoList_multi r))"
    unfolding sortedTodoLists_multi_eq partitionTodoLists_multi_filter
    using m
    by (intro exI [of _ "filter (\<lambda>L. \<not> isDoneTodoList_multi L) ?xs @ filter isDoneTodoList_multi ?xs"])
      simp
next
  let ?k = "\<lambda>L. db_lower d (tl_title L)"
  let ?xs = "map (\<lambda>L. set_todos L (filter (\<lambda>t. td_todolist_id t = tl_id L) (todos d)))
           (sort_key ?k (todolists d))"
  note m = undone_then_done [of ?k ?xs isDoneTodoList_single, OF sorted_set_todos]
  show "\<exists>r. sortedTodoLists_single pgQuery d = (Inr r, d) \<and>
       r = filter (\<lambda>L. \<not> isDoneTodoList_single L) r @ filter isDoneTodoList_single r \<and>
       mset r =
         mset (map (\<lambda>L. set_todos L (filter (\<lambda>t. td_todolist_id t = tl_id L) (todos d)))
                 (todolists d)) \<and>
       sorted (map ?k (filter (\<lambda>L. \<not> isDoneTodoList_single L) r)) \<and>
       sorted (map ?k (filter isDoneTodoList_single r))"
    unfolding sortedTodoLists_single_eq partitionTodoLists_single_filter
    using m
    by (intro exI [of _ "filter (\<lambda>L. \<not> isDoneTodoList_single L) ?xs @ filter isDoneTodoList_single ?xs"])
      simp
qed

text \<open>
  The three stores on lists whose titles differ in case, \<open>toLowerCase\<close> and \<open>LOWER\<close> being
  the lower-casing of the strings with code units below 256: the lists that are not
  done come first, in the order of their lower-cased titles, which is not the order of
  the titles themselves; the two titles that differ in the case of the letter U+00E9
  only stay in the order of the store.
\<close>

theorem sortedTodoLists_undone_then_done_witness:
  "fst (sortedTodoLists_session latin1_lower mixed_case_store) =
     [garden, work, ete_small, ete_capital, home] \<and>
   sorted (map (\<lambda>L. latin1_lower (list_title L)) [garden, work, ete_small, ete_capital]) \<and>
   \<not> sorted (map list_title [garden, work, ete_small, ete_capital]) \<and>
   map tl_id (projr (fst (sortedTodoLists_multi pgQuery admin mixed_case_db))) = [4, 1, 5, 2] \<and>
   map tl_id (projr (fst (sortedTodoLists_single pgQuery mixed_case_single_db))) = [4, 1, 5, 2] \<and>
   \<not> sorted (map (\<lambda>i. tl_title (todolists mixed_case_db ! i)) [3, 0, 4])"
proof -
  have r: "fst (sortedTodoLists_session latin1_lower mixed_case_store) =
     [garden, work, ete_small, ete_capital, home]"
    by (simp add: sortedTodoLists_session_eq mixed_case_store_def work_def home_def garden_def
        ete_small_def ete_capital_def mail_def call_def isDoneTodoList_session_def
        latin1_lower_def js_def)
  have u: "filter (\<lambda>L. \<not> isDoneTodoList_session L) [garden, work, ete_small, ete_capital, home] =
     [garden, work, ete_small, ete_capital]"
    by (simp add: work_def home_def garden_def ete_small_def ete_capital_def mail_def call_def
        isDoneTodoList_session_def)
  from sortedTodoLists_undone_then_done
    [of latin1_lower mixed_case_store "js ''admin''" mixed_case_db]
  have "sorted (map (\<lambda>L. latin1_lower (list_title L))
          (filter (\<lambda>L. \<not> isDoneTodoList_session L)
             (fst (sortedTodoLists_session latin1_lower mixed_case_store))))"
    unfolding Let_def by blast
  then have s: "sorted (map (\<lambda>L. latin1_lower (list_title L)) [garden, work, ete_small, ete_capital])"
    unfolding r u .
  have n: "\<not> sorted (map list_title [garden, work, ete_small, ete_capital])"
    by (simp add: work_def garden_def ete_small_def ete_capital_def js_def)
  have m: "map tl_id (projr (fst (sortedTodoLists_multi pgQuery admin mixed_case_db))) = [4, 1, 5, 2]"
    by (simp add: admin_def sortedTodoLists_multi_eq partitionTodoLists_multi_filter
        mixed_case_db_def example_db_def isDoneTodoList_multi_def set_todos_def
        latin1_lower_def js_def)
  have p: "map tl_id (projr (fst (sortedTodoLists_single pgQuery mixed_case_single_db))) =
     [4, 1, 5, 2]"
    by (simp add: sortedTodoLists_single_eq partitionTodoLists_single_filter
        mixed_case_single_db_def single_db_def isDoneTodoList_single_def set_todos_def
        latin1_lower_def js_def)
  have q: "\<not> sorted (map (\<lambda>i. tl_title (todolists mixed_case_db ! i)) [3, 0, 4])"
    by (simp add: mixed_case_db_def example_db_def js_def)
  from r s n m p q show ?thesis by blast
qed

section \<open>isDoneTodoList\<close>

text \<open>
  C2. In each of the three stores \<open>isDoneTodoList(L)\<close> is true exactly when \<open>L.todos\<close> is
  not empty and every todo of \<open>L.todos\<close> is done; for a list with no todos it is false.
\<close>

theorem isDoneTodoList_iff:
  "(isDoneTodoList_session L \<longleftrightarrow>
      list_todos L \<noteq> [] \<and> (\<forall>t \<in> set (list_todos L). todo_done t)) \<and>
   (list_todos L = [] \<longrightarrow> \<not> isDoneTodoList_session L) \<and>
   (isDoneTodoList_single P \<longleftrightarrow> tl_todos P \<noteq> [] \<and> (\<forall>t \<in> set (tl_todos P). td_done t)) \<and>
   (tl_todos P = [] \<longrightarrow> \<not> isDoneTodoList_single P) \<and>
   (isDoneTodoList_multi P \<longleftrightarrow> tl_todos P \<noteq> [] \<and> (\<forall>t \<in> set (tl_todos P). td_done t)) \<and>
   (tl_todos P = [] \<longrightarrow> \<not> isDoneTodoList_multi P)"
  by (simp add: isDoneTodoList_session_def isDoneTodoList_single_def isDoneTodoList_multi_def
      list_all_iff)

theorem isDoneTodoList_iff_witness:
  "isDoneTodoList_session home \<and> \<not> isDoneTodoList_session work \<and>
   \<not> isDoneTodoList_session empty_list \<and>
   isDoneTodoList_single (set_todos \<lparr>tl_id = 1, tl_title = js ''Work'', tl_username = None\<rparr>
      [\<lparr>td_id = 1, td_title = js ''Mail'', td_done = True, td_todolist_id = 1, td_username = None\<rparr>]) \<and>
   \<not> isDoneTodoList_multi (set_todos \<lparr>tl_id = 1, tl_title = js ''Work'', tl_username = Some (js ''admin'')\<rparr> [])"
  using
    isDoneTodoList_iff [of home
      "set_todos \<lparr>tl_id = 1, tl_title = js ''Work'', tl_username = None\<rparr>
         [\<lparr>td_id = 1, td_title = js ''Mail'', td_done = True, td_todolist_id = 1, td_username = None\<rparr>]"]
    isDoneTodoList_iff [of work
      "set_todos \<lparr>tl_id = 1, tl_title = js ''Work'', tl_username = Some (js ''admin'')\<rparr> []"]
    isDoneTodoList_iff [of empty_list]
  by (simp add: home_def work_def empty_list_def call_def mail_def set_todos_def)

section \<open>deleteTodo of the session store\<close>

text \<open>
  C4. \<open>deleteTodo\<close> of the session store on the first todo of a list: the todo exists
  and the list exists, yet the call returns \<open>undefined\<close> and the store is as before.
  For a todo id that no todo of the list has, the last todo of the list is removed.
  A call that removes the todo it was asked to remove returns \<open>undefined\<close> as well.
\<close>

theorem deleteTodo_session_first_todo_kept:
  "deleteTodo_session 1 1 example_store = (None, example_store) \<and>
   deleteTodo_session 1 7 example_store =
     (None, [work\<lparr>list_todos := [mail]\<rparr>, home, empty_list]) \<and>
   deleteTodo_session 1 2 example_store =
     (None, [work\<lparr>list_todos := [mail]\<rparr>, home, empty_list])"
  by (simp add: deleteTodo_session_def example_store_def work_def home_def empty_list_def
      mail_def call_def findTodoList_def findIndex_def splice1_def)

section \<open>sortTodoItems\<close>

text \<open>
  C8 as the spec states it: after \<open>sortTodoItems(undone, done)\<close> the caller's \<open>undone\<close> and
  \<open>done\<close> arrays are as they were. The array \<open>[Mail, call]\<close> is not: the call leaves it as
  \<open>[call, Mail]\<close>.
\<close>

theorem sortTodoItems_changes_undone:
  "snd (sortTodoItems latin1_lower todo_title 0 1 example_arrays) 0 \<noteq> example_arrays 0"
  by (simp add: sortTodoItems_def example_arrays_def mail_def call_def Array_sort_def
      compareByTitle_def latin1_lower_def js_def Let_def)

text \<open>
  C8, amended. \<open>sortTodoItems(undone, done)\<close> sorts the two arrays it is given in place:
  after the call each of them holds the items it held before, and the titles of its
  items, lower-cased by \<open>toLowerCase\<close>, ascend; no other array is changed, no item is
  changed, and the result is the new array made of \<open>undone\<close> followed by \<open>done\<close>.
\<close>

theorem sortTodoItems_sorts_in_place:
  "fst (sortTodoItems toLowerCase title undone done h) =
     snd (sortTodoItems toLowerCase title undone done h) undone @
     snd (sortTodoItems toLowerCase title undone done h) done \<and>
   (\<forall>a. mset (snd (sortTodoItems toLowerCase title undone done h) a) = mset (h a)) \<and>
   (\<forall>a. a \<noteq> undone \<and> a \<noteq> done \<longrightarrow>
        snd (sortTodoItems toLowerCase title undone done h) a = h a) \<and>
   sorted (map (\<lambda>x. toLowerCase (title x))
     (snd (sortTodoItems toLowerCase title undone done h) undone)) \<and>
   sorted (map (\<lambda>x. toLowerCase (title x))
     (snd (sortTodoItems toLowerCase title undone done h) done))"
  by (simp add: sortTodoItems_def Let_def mset_Array_sort sorted_Array_sort)

text \<open>
  The array \<open>[Mail, call]\<close> comes back as \<open>[call, Mail]\<close>, which is in the order of the
  lower-cased titles and not in the order of the titles themselves; the two titles
  that are the small and the capital letter U+00E9 and U+00C9 compare equal once
  lower-cased and stay as they were, the small letter first.
\<close>

theorem sortTodoItems_sorts_in_place_witness:
  "fst (sortTodoItems latin1_lower todo_title 0 1 example_arrays) = [call, mail] \<and>
   snd (sortTodoItems latin1_lower todo_title 0 1 example_arrays) 0 = [call, mail] \<and>
   snd (sortTodoItems latin1_lower todo_title 0 1 example_arrays) 2 = example_arrays 2 \<and>
   sorted (map (\<lambda>x. latin1_lower (todo_title x)) [call, mail]) \<and>
   \<not> sorted (map todo_title [call, mail]) \<and>
   snd (sortTodoItems latin1_lower todo_title 0 1 accent_arrays) 0 = [e_small, e_capital] \<and>
   \<not> sorted (map todo_title [e_small, e_capital])"
proof -
  have 0: "snd (sortTodoItems latin1_lower todo_title 0 1 example_arrays) 0 = [call, mail]"
    by (simp add: sortTodoItems_def example_arrays_def mail_def call_def Array_sort_def
        compareByTitle_def latin1_lower_def js_def Let_def)
  have 1: "snd (sortTodoItems latin1_lower todo_title 0 1 example_arrays) 1 = []"
    by (simp add: sortTodoItems_def example_arrays_def Array_sort_def Let_def)
  have 2: "snd (sortTodoItems latin1_lower todo_title 0 1 accent_arrays) 0 = [e_small, e_capital]"
    by (simp add: sortTodoItems_def accent_arrays_def e_small_def e_capital_def Array_sort_def
        compareByTitle_def latin1_lower_def Let_def)
  have 3: "\<not> sorted (map todo_title [call, mail])" "\<not> sorted (map todo_title [e_small, e_capital])"
    by (simp_all add: mail_def call_def e_small_def e_capital_def js_def)
  show ?thesis
    using 0 1 2 3 sortTodoItems_sorts_in_place [of latin1_lower todo_title 0 1 example_arrays]
    by simp
qed

section \<open>completeAllTodos\<close>

text \<open>
  C10. In both relational stores \<open>completeAllTodos(todoListId)\<close> returns \<open>true\<close> for
  every id, also one that no todo list has: the \<open>UPDATE\<close> and the \<open>SELECT\<close> it issues
  have the same \<open>WHERE\<close> clause and the same parameters, and on every database the two
  report the same number of rows, before the update as well as after it.
\<close>

theorem completeAllTodos_always_true:
  "fst (completeAllTodos_single pgQuery todoListId d) = Inr True \<and>
   fst (completeAllTodos_multi pgQuery this todoListId d) = Inr True \<and>
   snd (completeAllTodos_single recordQuery todoListId []) =
     [(UPDATE Todos SetDoneTrue [(Todolist_id, 1)], [Num todoListId]),
      (SELECT Star Todos [(Todolist_id, 1)] [], [Num todoListId])] \<and>
   snd (completeAllTodos_multi recordQuery this todoListId []) =
     [(UPDATE Todos SetDoneTrue [(Todolist_id, 1), (Username, 2)],
       [Num todoListId, param (this_username this)]),
      (SELECT Star Todos [(Todolist_id, 1), (Username, 2)] [],
       [Num todoListId, param (this_username this)])] \<and>
   map_sum id rowCount (fst (pgQuery (UPDATE Todos SetDoneTrue cond) ps d)) =
     map_sum id rowCount (fst (pgQuery (SELECT Star Todos cond []) ps d))"
proof (intro conjI)
  show "fst (completeAllTodos_single pgQuery todoListId d) = Inr True"
    by (simp add: completeAllTodos_single_def pg_defs Promise_all_def filter_map o_def)
  show "fst (completeAllTodos_multi pgQuery this todoListId d) = Inr True"
    by (simp add: completeAllTodos_multi_def pg_defs Promise_all_def filter_map o_def)
      (intro arg_cong [where f = length] filter_cong refl, auto)
  show "snd (completeAllTodos_single recordQuery todoListId []) =
     [(UPDATE Todos SetDoneTrue [(Todolist_id, 1)], [Num todoListId]),
      (SELECT Star Todos [(Todolist_id, 1)] [], [Num todoListId])]"
    by (simp add: completeAllTodos_single_def recordQuery_def Promise_all_def)
  show "snd (completeAllTodos_multi recordQuery this todoListId []) =
     [(UPDATE Todos SetDoneTrue [(Todolist_id, 1), (Username, 2)],
       [Num todoListId, param (this_username this)]),
      (SELECT Star Todos [(Todolist_id, 1), (Username, 2)] [],
       [Num todoListId, param (this_username this)])]"
    by (simp add: completeAllTodos_multi_def recordQuery_def Promise_all_def)
  show "map_sum id rowCount (fst (pgQuery (UPDATE Todos SetDoneTrue cond) ps d)) =
     map_sum id rowCount (fst (pgQuery (SELECT Star Todos cond []) ps d))"
    by (simp add: pg_defs)
qed

section \<open>isValidLogin\<close>

lemma find_filter: "find P xs = (case filter P xs of [] \<Rightarrow> None | x # _ \<Rightarrow> Some x)"
  by (induction xs) simp_all

lemma isValidLogin_pgQuery:
  "isValidLogin bcrypt_compare pgQuery this usr password d =
     (Inr (case find (\<lambda>r. us_username r = usr) (users d) of
             None \<Rightarrow> False
           | Some r \<Rightarrow> bcrypt_compare password (us_password r)), d)"
  by (simp add: isValidLogin_def pg_defs find_filter row_password_def split: list.splits)

text \<open>
  C9. \<open>isValidLogin(username, password)\<close> returns \<open>false\<close> when \<open>users\<close> has no row for
  the username, and otherwise what \<open>bcrypt.compare\<close> says of the password and the hash
  stored in the first such row. The result is a boolean: a wrong username and a wrong
  password both give \<open>false\<close>.
\<close>

theorem isValidLogin_result:
  "((\<forall>r \<in> set (users d). us_username r \<noteq> usr) \<longrightarrow>
      isValidLogin bcrypt_compare pgQuery this usr password d = (Inr False, d)) \<and>
   (\<forall>r. find (\<lambda>r. us_username r = usr) (users d) = Some r \<longrightarrow>
      isValidLogin bcrypt_compare pgQuery this usr password d =
        (Inr (bcrypt_compare password (us_password r)), d)) \<and>
   (\<exists>b. fst (isValidLogin bcrypt_compare pgQuery this usr password d) = Inr b)"
proof -
  have "find (\<lambda>r. us_username r = usr) (users d) = None"
    if "\<forall>r \<in> set (users d). us_username r \<noteq> usr"
    using that by (simp add: find_None_iff)
  then show ?thesis
    by (auto simp: isValidLogin_pgQuery)
qed

theorem isValidLogin_result_witness:
  "isValidLogin example_compare pgQuery admin (js ''nobody'') (js ''secret'') example_db =
     (Inr False, example_db) \<and>
   isValidLogin example_compare pgQuery admin (js ''admin'') (js ''letmein'') example_db =
     (Inr False, example_db) \<and>
   isValidLogin example_compare pgQuery admin (js ''admin'') (js ''secret'') example_db =
     (Inr True, example_db)"
  using
    isValidLogin_result [of example_db "js ''nobody''" example_compare admin "js ''secret''"]
    isValidLogin_result [of example_db "js ''admin''" example_compare admin "js ''letmein''"]
    isValidLogin_result [of example_db "js ''admin''" example_compare admin "js ''secret''"]
  by (simp add: example_db_def example_compare_def js_def)

section \<open>toggleTodo\<close>

lemma find_pos_None: "find_pos P xs = None \<longleftrightarrow> (\<forall>x \<in> set xs. \<not> P x)"
  by (induction xs) simp_all

lemma find_pos_Some: "find_pos P xs = Some i \<Longrightarrow> i < length xs \<and> P (xs ! i)"
  by (induction xs arbitrary: i) (auto split: if_splits)

lemma find_pos_update:
  "find_pos P xs = Some i \<Longrightarrow> P y \<Longrightarrow> find_pos P (xs[i := y]) = Some i"
  by (induction xs arbitrary: i) (auto split: if_splits)

lemma findTodo_Some:
  assumes "findTodo S l t = Some (i, j)"
  shows "i < length S" "list_id (S ! i) = l" "j < length (list_todos (S ! i))"
    "todo_id (list_todos (S ! i) ! j) = t" "findTodoList S l = Some i"
    "find_pos (\<lambda>todo. todo_id todo = t) (list_todos (S ! i)) = Some j"
  using assms
  by (auto simp: findTodo_def findTodoList_def split: option.splits dest: find_pos_Some)

lemma findTodo_None:
  assumes "\<forall>L \<in> set S. list_id L = l \<longrightarrow> (\<forall>x \<in> set (list_todos L). todo_id x \<noteq> t)"
  shows "findTodo S l t = None"
proof (cases "findTodoList S l")
  case None
  then show ?thesis by (simp add: findTodo_def)
next
  case (Some i)
  then have "i < length S" "list_id (S ! i) = l"
    using find_pos_Some [of "\<lambda>L. list_id L = l" S i] by (simp_all add: findTodoList_def)
  with assms have "\<forall>x \<in> set (list_todos (S ! i)). todo_id x \<noteq> t"
    by (metis nth_mem)
  then have "find_pos (\<lambda>todo. todo_id todo = t) (list_todos (S ! i)) = None"
    by (simp add: find_pos_None)
  with Some show ?thesis by (simp add: findTodo_def)
qed

lemma toggleTodo_session_found:
  "findTodo S l t = Some (i, j) \<Longrightarrow>
     toggleTodo_session l t S =
       (Inr (), S[i := (S ! i)\<lparr>list_todos := (list_todos (S ! i))
                   [j := (list_todos (S ! i) ! j)\<lparr>todo_done := \<not> todo_done (list_todos (S ! i) ! j)\<rparr>]\<rparr>])"
  by (simp add: toggleTodo_session_def Let_def)

lemma findTodo_after_toggle:
  assumes "findTodo S l t = Some (i, j)"
  shows "findTodo (S[i := (S ! i)\<lparr>list_todos := (list_todos (S ! i))
                   [j := (list_todos (S ! i) ! j)\<lparr>todo_done := b\<rparr>]\<rparr>]) l t = Some (i, j)"
proof -
  note f = findTodo_Some [OF assms]
  let ?T = "(list_todos (S ! i) ! j)\<lparr>todo_done := b\<rparr>"
  let ?L = "(S ! i)\<lparr>list_todos := (list_todos (S ! i))[j := ?T]\<rparr>"
  have 1: "findTodoList (S[i := ?L]) l = Some i"
    unfolding findTodoList_def using f(5) f(2)
    by (intro find_pos_update) (simp_all add: findTodoList_def)
  have 2: "find_pos (\<lambda>todo. todo_id todo = t) ((list_todos (S ! i))[j := ?T]) = Some j"
    using f(6) f(4) by (intro find_pos_update) simp_all
  show ?thesis
    using 1 2 f(1) by (simp add: findTodo_def)
qed

lemma toggleTodo_session_twice:
  assumes "findTodo S l t = Some (i, j)"
  shows "snd (toggleTodo_session l t (snd (toggleTodo_session l t S))) = S"
proof -
  note f = findTodo_Some [OF assms]
  let ?T = "list_todos (S ! i) ! j"
  let ?S' = "S[i := (S ! i)\<lparr>list_todos := (list_todos (S ! i))[j := ?T\<lparr>todo_done := \<not> todo_done ?T\<rparr>]\<rparr>]"
  have 1: "snd (toggleTodo_session l t S) = ?S'"
    by (simp add: toggleTodo_session_found [OF assms])
  have 2: "findTodo ?S' l t = Some (i, j)"
    by (rule findTodo_after_toggle [OF assms])
  have "snd (toggleTodo_session l t ?S') = S"
    using f(1) f(3) by (simp add: toggleTodo_session_found [OF 2])
  with 1 show ?thesis by simp
qed

lemma toggleTodo_single_pgQuery:
  "toggleTodo_single pgQuery l t d =
     (Inr (list_ex (\<lambda>r. td_todolist_id r = l \<and> td_id r = t) (todos d)),
      d\<lparr>todos := map (\<lambda>r. if td_todolist_id r = l \<and> td_id r = t
                             then r\<lparr>td_done := \<not> td_done r\<rparr> else r) (todos d)\<rparr>)"
  by (simp add: toggleTodo_single_def pg_defs list_ex_iff filter_empty_conv)

lemma toggleTodo_multi_pgQuery:
  "toggleTodo_multi pgQuery (constructor \<lparr>session_username = Some u\<rparr>) l t d =
     (Inr (list_ex (\<lambda>r. td_todolist_id r = l \<and> td_id r = t \<and> td_username r = Some u) (todos d)),
      d\<lparr>todos := map (\<lambda>r. if td_todolist_id r = l \<and> td_id r = t \<and> td_username r = Some u
                             then r\<lparr>td_done := \<not> td_done r\<rparr> else r) (todos d)\<rparr>)"
  by (auto simp: toggleTodo_multi_def pg_defs list_ex_iff filter_empty_conv)

lemma map_toggle_twice:
  assumes "\<And>r b. P (r\<lparr>td_done := b\<rparr>) = P r"
  shows "map (\<lambda>r. if P r then r\<lparr>td_done := \<not> td_done r\<rparr> else r)
           (map (\<lambda>r. if P r then r\<lparr>td_done := \<not> td_done r\<rparr> else r) xs) = xs"
  by (induction xs) (simp_all add: assms)

lemma map_toggle_none:
  "\<not> list_ex P xs \<Longrightarrow> map (\<lambda>r. if P r then f r else r) xs = xs"
  by (induction xs) simp_all

lemma find_pos_the:
  assumes "distinct (map f xs)" "x \<in> set xs"
  shows "\<exists>i. find_pos (\<lambda>y. f y = f x) xs = Some i \<and> i < length xs \<and> xs ! i = x"
proof -
  from assms(2) have "find_pos (\<lambda>y. f y = f x) xs \<noteq> None"
    by (auto simp: find_pos_None)
  then obtain i where i: "find_pos (\<lambda>y. f y = f x) xs = Some i"
    by blast
  then have "i < length xs" "f (xs ! i) = f x"
    using find_pos_Some [of "\<lambda>y. f y = f x" xs i] by simp_all
  moreover from assms(1) have "inj_on f (set xs)"
    by (simp add: distinct_map)
  ultimately have "xs ! i = x"
    using assms(2) by (auto dest: inj_onD)
  with i \<open>i < length xs\<close> show ?thesis by blast
qed

lemma list_update_distinct:
  "distinct xs \<Longrightarrow> i < length xs \<Longrightarrow> xs[i := y] = map (\<lambda>z. if z = xs ! i then y else z) xs"
  by (auto simp: list_eq_iff_nth_eq nth_list_update nth_eq_iff_index_eq)

text \<open>
  In a store whose lists have different ids, a todo of a list whose todos have
  different ids is the one \<open>_findTodo\<close> finds.
\<close>

lemma findTodo_existing:
  assumes "distinct (map list_id S)" "L \<in> set S"
    and "distinct (map todo_id (list_todos L))" "x \<in> set (list_todos L)"
  shows "\<exists>i j. findTodo S (list_id L) (todo_id x) = Some (i, j) \<and> i < length S \<and> S ! i = L \<and>
           j < length (list_todos L) \<and> list_todos L ! j = x"
proof -
  obtain i where i: "find_pos (\<lambda>M. list_id M = list_id L) S = Some i" "i < length S" "S ! i = L"
    using find_pos_the [OF assms(1, 2)] by blast
  obtain j where j: "find_pos (\<lambda>y. todo_id y = todo_id x) (list_todos L) = Some j"
    "j < length (list_todos L)" "list_todos L ! j = x"
    using find_pos_the [OF assms(3, 4)] by blast
  from i j have "findTodo S (list_id L) (todo_id x) = Some (i, j)"
    by (simp add: findTodo_def findTodoList_def)
  with i j show ?thesis by blast
qed

lemma toggleTodo_session_existing:
  assumes "distinct (map list_id S)" "L \<in> set S"
    and "distinct (map todo_id (list_todos L))" "x \<in> set (list_todos L)"
  shows "toggleTodo_session (list_id L) (todo_id x) S =
           (Inr (),
            map (\<lambda>M. if M = L
                      then L\<lparr>list_todos :=
                             map (\<lambda>y. if y = x then x\<lparr>todo_done := \<not> todo_done x\<rparr> else y)
                               (list_todos L)\<rparr>
                      else M) S)"
    and "snd (toggleTodo_session (list_id L) (todo_id x)
               (snd (toggleTodo_session (list_id L) (todo_id x) S))) = S"
proof -
  obtain i j where f: "findTodo S (list_id L) (todo_id x) = Some (i, j)"
    and i: "i < length S" "S ! i = L" and j: "j < length (list_todos L)" "list_todos L ! j = x"
    using findTodo_existing [OF assms] by blast
  have dS: "distinct S" and dL: "distinct (list_todos L)"
    using assms(1, 3) by (simp_all add: distinct_map)
  have "(list_todos L)[j := x\<lparr>todo_done := \<not> todo_done x\<rparr>] =
        map (\<lambda>y. if y = x then x\<lparr>todo_done := \<not> todo_done x\<rparr> else y) (list_todos L)"
    using list_update_distinct [OF dL j(1)] j(2) by simp
  moreover have "S[i := M] = map (\<lambda>N. if N = L then M else N) S" for M
    using list_update_distinct [OF dS i(1)] i(2) by simp
  ultimately show "toggleTodo_session (list_id L) (todo_id x) S =
           (Inr (),
            map (\<lambda>M. if M = L
                      then L\<lparr>list_todos :=
                             map (\<lambda>y. if y = x then x\<lparr>todo_done := \<not> todo_done x\<rparr> else y)
                               (list_todos L)\<rparr>
                      else M) S)"
    using toggleTodo_session_found [OF f] i(2) j(2) by simp
  show "snd (toggleTodo_session (list_id L) (todo_id x)
               (snd (toggleTodo_session (list_id L) (todo_id x) S))) = S"
    by (rule toggleTodo_session_twice [OF f])
qed

text \<open>
  C7. Session store, the ids of the lists being different from one another and the ids
  of the todos of a list too: for a todo \<open>x\<close> of a list \<open>L\<close> of the store,
  \<open>toggleTodo(L.id, x.id)\<close> negates \<open>done\<close> of \<open>x\<close> in \<open>L\<close> and changes no other todo and no
  other list, and a second call gives back the store as it was; when no list with the
  id has a todo with the id, the call throws a \<open>TypeError\<close> and the store is as before.
  Relational stores: the call negates \<open>done\<close> of every row of \<open>todos\<close> with the two ids
  (and the user's name, in the multi-user store), changes nothing else, and returns
  whether there is such a row; a second call gives back the database as it was; with
  no such row it returns \<open>false\<close> and the database is as before.
\<close>

theorem toggleTodo_flips_once:
  "(distinct (map list_id S) \<and> L \<in> set S \<and> list_id L = l \<and>
    distinct (map todo_id (list_todos L)) \<and> x \<in> set (list_todos L) \<and> todo_id x = t \<longrightarrow>
      toggleTodo_session l t S =
        (Inr (),
         map (\<lambda>M. if M = L
                   then L\<lparr>list_todos :=
                          map (\<lambda>y. if y = x then x\<lparr>todo_done := \<not> todo_done x\<rparr> else y)
                            (list_todos L)\<rparr>
                   else M) S) \<and>
      snd (toggleTodo_session l t (snd (toggleTodo_session l t S))) = S) \<and>
   ((\<forall>L \<in> set S. list_id L = l \<longrightarrow> (\<forall>x \<in> set (list_todos L). todo_id x \<noteq> t)) \<longrightarrow>
      toggleTodo_session l t S = (Inl (undefined_property ''done''), S)) \<and>
   toggleTodo_single pgQuery l t d =
     (Inr (list_ex (\<lambda>r. td_todolist_id r = l \<and> td_id r = t) (todos d)),
      d\<lparr>todos := map (\<lambda>r. if td_todolist_id r = l \<and> td_id r = t
                             then r\<lparr>td_done := \<not> td_done r\<rparr> else r) (todos d)\<rparr>) \<and>
   snd (toggleTodo_single pgQuery l t (snd (toggleTodo_single pgQuery l t d))) = d \<and>
   (\<not> list_ex (\<lambda>r. td_todolist_id r = l \<and> td_id r = t) (todos d) \<longrightarrow>
      toggleTodo_single pgQuery l t d = (Inr False, d)) \<and>
   toggleTodo_multi pgQuery (constructor \<lparr>session_username = Some u\<rparr>) l t d =
     (Inr (list_ex (\<lambda>r. td_todolist_id r = l \<and> td_id r = t \<and> td_username r = Some u) (todos d)),
      d\<lparr>todos := map (\<lambda>r. if td_todolist_id r = l \<and> td_id r = t \<and> td_username r = Some u
                             then r\<lparr>td_done := \<not> td_done r\<rparr> else r) (todos d)\<rparr>) \<and>
   snd (toggleTodo_multi pgQuery (constructor \<lparr>session_username = Some u\<rparr>) l t
          (snd (toggleTodo_multi pgQuery (constructor \<lparr>session_username = Some u\<rparr>) l t d))) = d \<and>
   (\<not> list_ex (\<lambda>r. td_todolist_id r = l \<and> td_id r = t \<and> td_username r = Some u) (todos d) \<longrightarrow>
      toggleTodo_multi pgQuery (constructor \<lparr>session_username = Some u\<rparr>) l t d = (Inr False, d))"
proof (intro conjI impI)
  assume a: "distinct (map list_id S) \<and> L \<in> set S \<and> list_id L = l \<and>
    distinct (map todo_id (list_todos L)) \<and> x \<in> set (list_todos L) \<and> todo_id x = t"
  then have e: "distinct (map list_id S)" "L \<in> set S" "distinct (map todo_id (list_todos L))"
    "x \<in> set (list_todos L)" and l: "list_id L = l" and t: "todo_id x = t"
    by simp_all
  show "toggleTodo_session l t S =
        (Inr (),
         map (\<lambda>M. if M = L
                   then L\<lparr>list_todos :=
                          map (\<lambda>y. if y = x then x\<lparr>todo_done := \<not> todo_done x\<rparr> else y)
                            (list_todos L)\<rparr>
                   else M) S)"
    using toggleTodo_session_existing(1) [OF e] unfolding l t .
  show "snd (toggleTodo_session l t (snd (toggleTodo_session l t S))) = S"
    using toggleTodo_session_existing(2) [OF e] unfolding l t .
next
  assume "\<forall>L \<in> set S. list_id L = l \<longrightarrow> (\<forall>x \<in> set (list_todos L). todo_id x \<noteq> t)"
  then have "findTodo S l t = None" by (rule findTodo_None)
  then show "toggleTodo_session l t S = (Inl (undefined_property ''done''), S)"
    by (simp add: toggleTodo_session_def)
next
  show "toggleTodo_single pgQuery l t d =
     (Inr (list_ex (\<lambda>r. td_todolist_id r = l \<and> td_id r = t) (todos d)),
      d\<lparr>todos := map (\<lambda>r. if td_todolist_id r = l \<and> td_id r = t
                             then r\<lparr>td_done := \<not> td_done r\<rparr> else r) (todos d)\<rparr>)"
    by (rule toggleTodo_single_pgQuery)
  show "snd (toggleTodo_single pgQuery l t (snd (toggleTodo_single pgQuery l t d))) = d"
    using map_toggle_twice [of "\<lambda>r. td_todolist_id r = l \<and> td_id r = t" "todos d"]
    by (simp add: toggleTodo_single_pgQuery del: map_map)
  show "toggleTodo_multi pgQuery (constructor \<lparr>session_username = Some u\<rparr>) l t d =
     (Inr (list_ex (\<lambda>r. td_todolist_id r = l \<and> td_id r = t \<and> td_username r = Some u) (todos d)),
      d\<lparr>todos := map (\<lambda>r. if td_todolist_id r = l \<and> td_id r = t \<and> td_username r = Some u
                             then r\<lparr>td_done := \<not> td_done r\<rparr> else r) (todos d)\<rparr>)"
    by (rule toggleTodo_multi_pgQuery)
  show "snd (toggleTodo_multi pgQuery (constructor \<lparr>session_username = Some u\<rparr>) l t
          (snd (toggleTodo_multi pgQuery (constructor \<lparr>session_username = Some u\<rparr>) l t d))) = d"
    using map_toggle_twice
      [of "\<lambda>r. td_todolist_id r = l \<and> td_id r = t \<and> td_username r = Some u" "todos d"]
    by (simp add: toggleTodo_multi_pgQuery del: map_map)
next
  assume "\<not> list_ex (\<lambda>r. td_todolist_id r = l \<and> td_id r = t) (todos d)"
  then show "toggleTodo_single pgQuery l t d = (Inr False, d)"
    by (simp add: toggleTodo_single_pgQuery map_toggle_none)
next
  assume "\<not> list_ex (\<lambda>r. td_todolist_id r = l \<and> td_id r = t \<and> td_username r = Some u) (todos d)"
  then show "toggleTodo_multi pgQuery (constructor \<lparr>session_username = Some u\<rparr>) l t d = (Inr False, d)"
    by (simp add: toggleTodo_multi_pgQuery map_toggle_none)
qed

theorem toggleTodo_flips_once_witness:
  "toggleTodo_session 1 2 example_store =
     (Inr (), [work\<lparr>list_todos := [mail, call\<lparr>todo_done := False\<rparr>]\<rparr>, home, empty_list]) \<and>
   snd (toggleTodo_session 1 2 (snd (toggleTodo_session 1 2 example_store))) = example_store \<and>
   toggleTodo_session 2 2 example_store =
     (Inr (), [work, home\<lparr>list_todos := [call\<lparr>todo_done := False\<rparr>]\<rparr>, empty_list]) \<and>
   snd (toggleTodo_session 2 2 (snd (toggleTodo_session 2 2 example_store))) = example_store \<and>
   toggleTodo_session 1 9 example_store = (Inl (undefined_property ''done''), example_store) \<and>
   toggleTodo_session 8 1 example_store = (Inl (undefined_property ''done''), example_store) \<and>
   fst (toggleTodo_single pgQuery 1 1 single_db) = Inr True \<and>
   toggleTodo_single pgQuery 1 9 single_db = (Inr False, single_db) \<and>
   fst (toggleTodo_multi pgQuery admin 1 1 example_db) = Inr True \<and>
   toggleTodo_multi pgQuery admin 3 4 example_db = (Inr False, example_db)"
proof (intro conjI)
  have h: "distinct (map list_id example_store) \<and> work \<in> set example_store \<and> list_id work = 1 \<and>
    distinct (map todo_id (list_todos work)) \<and> call \<in> set (list_todos work) \<and> todo_id call = 2"
    by (simp add: example_store_def work_def home_def empty_list_def mail_def call_def)
  from h toggleTodo_flips_once
    [of example_store work 1 call 2 single_db "js ''admin''"]
  have "toggleTodo_session 1 2 example_store =
        (Inr (),
         map (\<lambda>M. if M = work
                   then work\<lparr>list_todos :=
                          map (\<lambda>y. if y = call then call\<lparr>todo_done := \<not> todo_done call\<rparr> else y)
                            (list_todos work)\<rparr>
                   else M) example_store)"
    and twice: "snd (toggleTodo_session 1 2 (snd (toggleTodo_session 1 2 example_store))) =
      example_store"
    by blast+
  then show "toggleTodo_session 1 2 example_store =
     (Inr (), [work\<lparr>list_todos := [mail, call\<lparr>todo_done := False\<rparr>]\<rparr>, home, empty_list])"
    by (simp add: example_store_def work_def home_def empty_list_def mail_def call_def)
  show "snd (toggleTodo_session 1 2 (snd (toggleTodo_session 1 2 example_store))) = example_store"
    by (rule twice)
next
  have h: "distinct (map list_id example_store) \<and> home \<in> set example_store \<and> list_id home = 2 \<and>
    distinct (map todo_id (list_todos home)) \<and> call \<in> set (list_todos home) \<and> todo_id call = 2"
    by (simp add: example_store_def work_def home_def empty_list_def mail_def call_def)
  from h toggleTodo_flips_once
    [of example_store home 2 call 2 single_db "js ''admin''"]
  have "toggleTodo_session 2 2 example_store =
        (Inr (),
         map (\<lambda>M. if M = home
                   then home\<lparr>list_todos :=
                          map (\<lambda>y. if y = call then call\<lparr>todo_done := \<not> todo_done call\<rparr> else y)
                            (list_todos home)\<rparr>
                   else M) example_store)"
    and twice: "snd (toggleTodo_session 2 2 (snd (toggleTodo_session 2 2 example_store))) =
      example_store"
    by blast+
  then show "toggleTodo_session 2 2 example_store =
     (Inr (), [work, home\<lparr>list_todos := [call\<lparr>todo_done := False\<rparr>]\<rparr>, empty_list])"
    by (simp add: example_store_def work_def home_def empty_list_def mail_def call_def)
  show "snd (toggleTodo_session 2 2 (snd (toggleTodo_session 2 2 example_store))) = example_store"
    by (rule twice)
next
  have "\<forall>L \<in> set example_store. list_id L = 1 \<longrightarrow> (\<forall>x \<in> set (list_todos L). todo_id x \<noteq> 9)"
    by (simp add: example_store_def work_def home_def empty_list_def mail_def call_def)
  with toggleTodo_flips_once [of example_store work 1 call 9 single_db "js ''admin''"]
  show "toggleTodo_session 1 9 example_store = (Inl (undefined_property ''done''), example_store)"
    by blast
next
  have "\<forall>L \<in> set example_store. list_id L = 8 \<longrightarrow> (\<forall>x \<in> set (list_todos L). todo_id x \<noteq> 1)"
    by (simp add: example_store_def work_def home_def empty_list_def mail_def call_def)
  with toggleTodo_flips_once [of example_store work 8 call 1 single_db "js ''admin''"]
  show "toggleTodo_session 8 1 example_store = (Inl (undefined_property ''done''), example_store)"
    by blast
next
  from toggleTodo_flips_once [of example_store work 1 call 1 single_db "js ''admin''"]
  have "toggleTodo_single pgQuery 1 1 single_db =
     (Inr (list_ex (\<lambda>r. td_todolist_id r = 1 \<and> td_id r = 1) (todos single_db)),
      single_db\<lparr>todos := map (\<lambda>r. if td_todolist_id r = 1 \<and> td_id r = 1
                             then r\<lparr>td_done := \<not> td_done r\<rparr> else r) (todos single_db)\<rparr>)"
    by blast
  then show "fst (toggleTodo_single pgQuery 1 1 single_db) = Inr True"
    by (simp add: single_db_def)
next
  have "\<not> list_ex (\<lambda>r. td_todolist_id r = 1 \<and> td_id r = 9) (todos single_db)"
    by (simp add: single_db_def)
  with toggleTodo_flips_once [of example_store work 1 call 9 single_db "js ''admin''"]
  show "toggleTodo_single pgQuery 1 9 single_db = (Inr False, single_db)"
    by blast
next
  from toggleTodo_flips_once [of example_store work 1 call 1 example_db "js ''admin''"]
  have "toggleTodo_multi pgQuery (constructor \<lparr>session_username = Some (js ''admin'')\<rparr>) 1 1 example_db =
     (Inr (list_ex (\<lambda>r. td_todolist_id r = 1 \<and> td_id r = 1 \<and> td_username r = Some (js ''admin''))
             (todos example_db)),
      example_db\<lparr>todos := map (\<lambda>r. if td_todolist_id r = 1 \<and> td_id r = 1 \<and>
                                        td_username r = Some (js ''admin'')
                             then r\<lparr>td_done := \<not> td_done r\<rparr> else r) (todos example_db)\<rparr>)"
    by blast
  then show "fst (toggleTodo_multi pgQuery admin 1 1 example_db) = Inr True"
    by (simp add: admin_def example_db_def)
next
  have "\<not> list_ex (\<lambda>r. td_todolist_id r = 3 \<and> td_id r = 4 \<and> td_username r = Some (js ''admin''))
              (todos example_db)"
    by (simp add: example_db_def)
  with toggleTodo_flips_once [of example_store work 3 call 4 example_db "js ''admin''"]
  show "toggleTodo_multi pgQuery admin 3 4 example_db = (Inr False, example_db)"
    unfolding admin_def by blast
qed

section \<open>createdTodoList\<close>

lemma insert_todolist_rowCount:
  "pgQuery (INSERT Todolists cols) ps d = (Inr r, d1) \<Longrightarrow> rowCount r = 1"
  by (auto simp: pgQuery_def affected_def Let_def
      split: if_splits option.splits val.splits)

lemma isUniqueConstraintViolation_unique_violation:
  "isUniqueConstraintViolation_single unique_violation"
  "isUniqueConstraintViolation_multi unique_violation"
  by (simp_all add: isUniqueConstraintViolation_single_def isUniqueConstraintViolation_multi_def
      unique_violation_def String_of_error_def)

lemma createdTodoList_single_pgQuery:
  "fst (createdTodoList_single pgQuery title d) =
     Inr ((title, None) \<notin> set (owned_titles (todolists d)))"
  by (simp add: createdTodoList_single_def pgQuery_def affected_def Let_def
      isUniqueConstraintViolation_unique_violation)

lemma createdTodoList_multi_pgQuery:
  "fst (createdTodoList_multi pgQuery this title d) =
     Inr ((title, this_username this) \<notin> set (owned_titles (todolists d)))"
  by (cases "this_username this")
    (simp_all add: createdTodoList_multi_def pgQuery_def affected_def param_def Let_def
      isUniqueConstraintViolation_unique_violation)

text \<open>
  C6. Whatever \<open>dbQuery\<close> does with the \<open>INSERT\<close>: when it throws an error that
  \<open>isUniqueConstraintViolation\<close> recognises, \<open>createdTodoList\<close> returns \<open>false\<close> and
  throws nothing; when it throws any other error, \<open>createdTodoList\<close> throws that error;
  when it returns a result, \<open>createdTodoList\<close> returns whether the result counts a row.
  On the database, an \<open>INSERT\<close> into \<open>todolists\<close> that succeeds counts one row, the error
  for a title the owner already has is recognised, and so \<open>createdTodoList\<close> returns
  \<open>false\<close> for a title the owner already has and \<open>true\<close> for any other.
\<close>

theorem createdTodoList_result:
  "(\<forall>e s1. dbQuery (INSERT Todolists [Title]) [Str title] s = (Inl e, s1) \<longrightarrow>
      createdTodoList_single dbQuery title s =
        (if isUniqueConstraintViolation_single e then Inr False else Inl e, s1)) \<and>
   (\<forall>r s1. dbQuery (INSERT Todolists [Title]) [Str title] s = (Inr r, s1) \<longrightarrow>
      createdTodoList_single dbQuery title s = (Inr (0 < rowCount r), s1)) \<and>
   (\<forall>e s1. dbQuery (INSERT Todolists [Title, Username])
              [Str title, param (this_username this)] s = (Inl e, s1) \<longrightarrow>
      createdTodoList_multi dbQuery this title s =
        (if isUniqueConstraintViolation_multi e then Inr False else Inl e, s1)) \<and>
   (\<forall>r s1. dbQuery (INSERT Todolists [Title, Username])
              [Str title, param (this_username this)] s = (Inr r, s1) \<longrightarrow>
      createdTodoList_multi dbQuery this title s = (Inr (0 < rowCount r), s1)) \<and>
   (\<forall>cols ps r d1. pgQuery (INSERT Todolists cols) ps d = (Inr r, d1) \<longrightarrow> rowCount r = 1) \<and>
   isUniqueConstraintViolation_single unique_violation \<and>
   isUniqueConstraintViolation_multi unique_violation \<and>
   fst (createdTodoList_single pgQuery title d) =
     Inr ((title, None) \<notin> set (owned_titles (todolists d))) \<and>
   fst (createdTodoList_multi pgQuery this title d) =
     Inr ((title, this_username this) \<notin> set (owned_titles (todolists d)))"
proof (intro conjI allI impI)
  fix cols ps r d1
  assume "pgQuery (INSERT Todolists cols) ps d = (Inr r, d1)"
  then show "rowCount r = 1" by (rule insert_todolist_rowCount)
next
  show "fst (createdTodoList_single pgQuery title d) =
     Inr ((title, None) \<notin> set (owned_titles (todolists d)))"
    by (rule createdTodoList_single_pgQuery)
  show "fst (createdTodoList_multi pgQuery this title d) =
     Inr ((title, this_username this) \<notin> set (owned_titles (todolists d)))"
    by (rule createdTodoList_multi_pgQuery)
qed (simp_all add: createdTodoList_single_def createdTodoList_multi_def
    isUniqueConstraintViolation_unique_violation)

theorem createdTodoList_result_witness:
  "createdTodoList_multi pgQuery admin (js ''Work'') example_db = (Inr False, example_db) \<and>
   fst (createdTodoList_multi pgQuery admin (js ''Away'') example_db) = Inr True \<and>
   createdTodoList_multi refusedQuery admin (js ''Work'') example_db =
     (Inl (JsError ''Error'' ''connect ECONNREFUSED''), example_db) \<and>
   createdTodoList_single pgQuery (js ''Work'') single_db = (Inr False, single_db) \<and>
   fst (createdTodoList_single pgQuery (js ''Garden'') single_db) = Inr True \<and>
   createdTodoList_single refusedQuery (js ''Work'') single_db =
     (Inl (JsError ''Error'' ''connect ECONNREFUSED''), single_db)"
proof (intro conjI)
  have dup: "pgQuery (INSERT Todolists [Title, Username])
               [Str (js ''Work''), param (this_username admin)] example_db =
             (Inl unique_violation, example_db)"
    by (simp add: pgQuery_def admin_def example_db_def owned_titles_def param_def Let_def)
  with createdTodoList_result [of pgQuery "js ''Work''" example_db admin example_db]
  show "createdTodoList_multi pgQuery admin (js ''Work'') example_db = (Inr False, example_db)"
    by simp
  have "((js ''Away''), this_username admin) \<notin> set (owned_titles (todolists example_db))"
    by (simp add: admin_def example_db_def owned_titles_def)
  with createdTodoList_result [of pgQuery "js ''Away''" example_db admin example_db]
  show "fst (createdTodoList_multi pgQuery admin (js ''Away'') example_db) = Inr True"
    by simp
  have refused: "refusedQuery (INSERT Todolists [Title, Username])
               [Str (js ''Work''), param (this_username admin)] example_db =
             (Inl (JsError ''Error'' ''connect ECONNREFUSED''), example_db)"
    by (simp add: refusedQuery_def)
  have other: "\<not> isUniqueConstraintViolation_multi (JsError ''Error'' ''connect ECONNREFUSED'')"
    by (simp add: isUniqueConstraintViolation_multi_def String_of_error_def)
  from refused other
    createdTodoList_result [of refusedQuery "js ''Work''" example_db admin example_db]
  show "createdTodoList_multi refusedQuery admin (js ''Work'') example_db =
     (Inl (JsError ''Error'' ''connect ECONNREFUSED''), example_db)"
    by simp
next
  have dup: "pgQuery (INSERT Todolists [Title]) [Str (js ''Work'')] single_db =
             (Inl unique_violation, single_db)"
    by (simp add: pgQuery_def single_db_def owned_titles_def Let_def)
  with createdTodoList_result [of pgQuery "js ''Work''" single_db admin single_db]
  show "createdTodoList_single pgQuery (js ''Work'') single_db = (Inr False, single_db)"
    by simp
  have "((js ''Garden''), None) \<notin> set (owned_titles (todolists single_db))"
    by (simp add: single_db_def owned_titles_def)
  with createdTodoList_result [of pgQuery "js ''Garden''" single_db admin single_db]
  show "fst (createdTodoList_single pgQuery (js ''Garden'') single_db) = Inr True"
    by simp
  have refused: "refusedQuery (INSERT Todolists [Title]) [Str (js ''Work'')] single_db =
             (Inl (JsError ''Error'' ''connect ECONNREFUSED''), single_db)"
    by (simp add: refusedQuery_def)
  have other: "\<not> isUniqueConstraintViolation_single (JsError ''Error'' ''connect ECONNREFUSED'')"
    by (simp add: isUniqueConstraintViolation_single_def String_of_error_def)
  from refused other
    createdTodoList_result [of refusedQuery "js ''Work''" single_db admin single_db]
  show "createdTodoList_single refusedQuery (js ''Work'') single_db =
     (Inl (JsError ''Error'' ''connect ECONNREFUSED''), single_db)"
    by simp
qed

section \<open>deleteTodoList\<close>

lemma deleteTodoList_single_pgQuery:
  "fst (deleteTodoList_single pgQuery todoListId d) =
     Inr (list_ex (\<lambda>r. tl_id r = todoListId) (todolists d))"
  by (simp add: deleteTodoList_single_def pg_defs Let_def list_ex_iff filter_empty_conv)

lemma deleteTodoList_multi_pgQuery:
  "fst (deleteTodoList_multi pgQuery (constructor \<lparr>session_username = Some u\<rparr>) todoListId d) =
     Inr (list_ex (\<lambda>r. tl_id r = todoListId \<and> tl_username r = Some u) (todolists d))"
  by (auto simp: deleteTodoList_multi_def pg_defs Let_def list_ex_iff filter_empty_conv)

text \<open>
  C5. The statements the two stores issue for \<open>deleteTodoList(1)\<close>, in order. The
  multi-user store issues the \<open>DELETE\<close> and then \<open>CHECK_TODOS\<close>, the \<open>SELECT\<close> of the todos
  of the list. The single-user store issues the \<open>DELETE\<close> twice: its second query is not
  a query for the rows that remain. Both return \<open>true\<close> for a list that exists and
  \<open>false\<close> for an id that no list has.
\<close>

theorem deleteTodoList_single_repeats_delete:
  "snd (deleteTodoList_single recordQuery 1 []) =
     [(DELETE Todolists [(Id, 1)], [Num 1]),
      (DELETE Todolists [(Id, 1)], [Num 1])] \<and>
   snd (deleteTodoList_multi recordQuery admin 1 []) =
     [(DELETE Todolists [(Id, 1), (Username, 2)], [Num 1, Str (js ''admin'')]),
      (SELECT Star Todos [(Todolist_id, 1), (Username, 2)] [], [Num 1, Str (js ''admin'')])] \<and>
   fst (deleteTodoList_single pgQuery 1 single_db) = Inr True \<and>
   fst (deleteTodoList_single pgQuery 9 single_db) = Inr False \<and>
   fst (deleteTodoList_multi pgQuery admin 1 example_db) = Inr True \<and>
   fst (deleteTodoList_multi pgQuery admin 9 example_db) = Inr False"
proof (intro conjI)
  show "snd (deleteTodoList_single recordQuery 1 []) =
     [(DELETE Todolists [(Id, 1)], [Num 1]),
      (DELETE Todolists [(Id, 1)], [Num 1])]"
    by (simp add: deleteTodoList_single_def recordQuery_def Let_def)
  show "snd (deleteTodoList_multi recordQuery admin 1 []) =
     [(DELETE Todolists [(Id, 1), (Username, 2)], [Num 1, Str (js ''admin'')]),
      (SELECT Star Todos [(Todolist_id, 1), (Username, 2)] [], [Num 1, Str (js ''admin'')])]"
    by (simp add: deleteTodoList_multi_def recordQuery_def Let_def admin_def param_def
        constructor_def)
  show "fst (deleteTodoList_single pgQuery 1 single_db) = Inr True"
    by (simp add: deleteTodoList_single_pgQuery single_db_def)
  show "fst (deleteTodoList_single pgQuery 9 single_db) = Inr False"
    by (simp add: deleteTodoList_single_pgQuery single_db_def)
  show "fst (deleteTodoList_multi pgQuery admin 1 example_db) = Inr True"
    by (simp add: admin_def deleteTodoList_multi_pgQuery example_db_def)
  show "fst (deleteTodoList_multi pgQuery admin 9 example_db) = Inr False"
    by (simp add: admin_def deleteTodoList_multi_pgQuery example_db_def)
qed

section \<open>The username in the queries of the multi-user store\<close>

text \<open>
  What each method of the multi-user store asks \<open>dbQuery\<close>: every statement has a
  \<open>username = $n\<close> in its \<open>WHERE\<close> clause (a \<open>username\<close> column in its \<open>INSERT\<close>), and
  every call but the one of \<open>deleteTodo\<close> passes \<open>this.username\<close> as that parameter.
\<close>

lemma multi_user_queries:
  "snd (loadTodoList_multi recordQuery this l []) =
     [(SELECT Star Todolists [(Id, 1), (Username, 2)] [], [Num l, param (this_username this)]),
      (SELECT Star Todos [(Todolist_id, 1), (Username, 2)] [], [Num l, param (this_username this)])]"
  "snd (loadTodo_multi recordQuery this l t []) =
     [(SELECT Star Todos [(Todolist_id, 1), (Id, 2), (Username, 3)] [],
       [Num l, Num t, param (this_username this)])]"
  "snd (sortedTodoLists_multi recordQuery this []) =
     [(SELECT Star Todolists [(Username, 1)] [ByLower Title], [param (this_username this)]),
      (SELECT Star Todos [(Username, 1)] [], [param (this_username this)])]"
  "snd (sortedTodos_multi recordQuery this L []) =
     [(SELECT Star Todos [(Todolist_id, 1), (Username, 2)] [ByCol Done, ByLower Title],
       [Num (tl_id L), param (this_username this)])]"
  "snd (existsTodoListTitle_multi recordQuery this title []) =
     [(SELECT Star Todolists [(Title, 1), (Username, 2)] [],
       [Str title, param (this_username this)])]"
  "snd (deleteTodoList_multi recordQuery this l []) =
     [(DELETE Todolists [(Id, 1), (Username, 2)], [Num l, param (this_username this)]),
      (SELECT Star Todos [(Todolist_id, 1), (Username, 2)] [], [Num l, param (this_username this)])]"
  "snd (createdTodoList_multi recordQuery this title []) =
     [(INSERT Todolists [Title, Username], [Str title, param (this_username this)])]"
  "snd (toggleTodo_multi recordQuery this l t []) =
     [(UPDATE Todos ToggleDone [(Todolist_id, 1), (Id, 2), (Username, 3)],
       [Num l, Num t, param (this_username this)])]"
  "snd (addedTodo_multi recordQuery this l title []) =
     [(INSERT Todos [Title, Todolist_id, Username],
       [Str title, Num l, param (this_username this)])]"
  "snd (completeAllTodos_multi recordQuery this l []) =
     [(UPDATE Todos SetDoneTrue [(Todolist_id, 1), (Username, 2)],
       [Num l, param (this_username this)]),
      (SELECT Star Todos [(Todolist_id, 1), (Username, 2)] [], [Num l, param (this_username this)])]"
  "snd (setTodoListTitle_multi recordQuery this l title []) =
     [(UPDATE Todolists (SetTitle 1) [(Id, 2), (Username, 3)],
       [Str title, Num l, param (this_username this)])]"
  by (simp_all add: loadTodoList_multi_def loadTodo_multi_def sortedTodoLists_multi_def
      sortedTodos_multi_def existsTodoListTitle_multi_def deleteTodoList_multi_def
      createdTodoList_multi_def toggleTodo_multi_def addedTodo_multi_def
      completeAllTodos_multi_def setTodoListTitle_multi_def recordQuery_def Promise_all_def
      affected_def Let_def)

text \<open>
  The foreign key of \<open>todos\<close> is on \<open>todolist_id\<close> alone: \<open>addedTodo\<close> of the store of
  \<open>admin\<close> succeeds on list 3, which belongs to \<open>guest\<close>, and throws on an id that no
  list has.
\<close>

lemma addedTodo_multi_foreign_list:
  "fst (addedTodo_multi pgQuery admin 3 (js ''Rest'') example_db) = Inr True"
  "fst (addedTodo_multi pgQuery admin 30 (js ''Rest'') example_db) = Inl foreign_key_violation"
  by (simp_all add: addedTodo_multi_def pgQuery_def affected_def admin_def example_db_def
      param_def constructor_def Let_def)

lemma deleteTodo_multi_pgQuery:
  "deleteTodo_multi pgQuery this l t d = (Inl bind_error, d)"
  by (simp add: deleteTodo_multi_def pgQuery_def placeholders_def)

text \<open>
  C1. \<open>deleteTodo(1, 1)\<close> of the store of \<open>admin\<close>, who owns todo 1 of list 1: the
  statement has the placeholder \<open>$3\<close> for the username and the call passes the two ids
  only. The database refuses the statement, the call throws and the todo stays.
  \<open>toggleTodo(1, 1)\<close> of the same store passes the username and reaches the row.
\<close>

theorem deleteTodo_multi_username_not_passed:
  "snd (deleteTodo_multi recordQuery admin 1 1 []) =
     [(DELETE Todos [(Todolist_id, 1), (Id, 2), (Username, 3)], [Num 1, Num 1])] \<and>
   deleteTodo_multi pgQuery admin 1 1 example_db = (Inl bind_error, example_db) \<and>
   snd (toggleTodo_multi recordQuery admin 1 1 []) =
     [(UPDATE Todos ToggleDone [(Todolist_id, 1), (Id, 2), (Username, 3)],
       [Num 1, Num 1, Str (js ''admin'')])] \<and>
   fst (toggleTodo_multi pgQuery admin 1 1 example_db) = Inr True"
proof (intro conjI)
  show "snd (deleteTodo_multi recordQuery admin 1 1 []) =
     [(DELETE Todos [(Todolist_id, 1), (Id, 2), (Username, 3)], [Num 1, Num 1])]"
    by (simp add: deleteTodo_multi_def recordQuery_def)
  show "deleteTodo_multi pgQuery admin 1 1 example_db = (Inl bind_error, example_db)"
    by (rule deleteTodo_multi_pgQuery)
  show "snd (toggleTodo_multi recordQuery admin 1 1 []) =
     [(UPDATE Todos ToggleDone [(Todolist_id, 1), (Id, 2), (Username, 3)],
       [Num 1, Num 1, Str (js ''admin'')])]"
    by (simp add: toggleTodo_multi_def recordQuery_def admin_def param_def constructor_def)
  show "fst (toggleTodo_multi pgQuery admin 1 1 example_db) = Inr True"
    by (simp add: admin_def toggleTodo_multi_pgQuery example_db_def)
qed

end
